theory Spec2Isabelle
  imports Complex_Main
begin

section \<open>JavaScript numbers\<close>

text \<open>
  The detector computes on JavaScript numbers. A finite number is modelled by the real it
  denotes (rounding, overflow and the sign of zero are not modelled); the three special
  values are kept, because the guards of the code (\<^verbatim>\<open>isFinite\<close>, comparisons that are
  false on \<^verbatim>\<open>NaN\<close>, the falsy test of \<^verbatim>\<open>||\<close>) depend on them.
\<close>

datatype jsnum = Fin real | PInf | NInf | NaN

fun js_isFinite :: "jsnum \<Rightarrow> bool" where
  "js_isFinite (Fin r) = True"
| "js_isFinite PInf = False"
| "js_isFinite NInf = False"
| "js_isFinite NaN = False"

fun js_isNaN :: "jsnum \<Rightarrow> bool" where
  "js_isNaN NaN = True"
| "js_isNaN (Fin r) = False"
| "js_isNaN PInf = False"
| "js_isNaN NInf = False"

text \<open>The falsy numbers are \<^verbatim>\<open>0\<close> and \<^verbatim>\<open>NaN\<close>.\<close>

fun js_falsy :: "jsnum \<Rightarrow> bool" where
  "js_falsy (Fin r) = (r = 0)"
| "js_falsy NaN = True"
| "js_falsy PInf = False"
| "js_falsy NInf = False"

text \<open>\<^verbatim>\<open>a || b\<close> on numbers.\<close>

definition js_or :: "jsnum \<Rightarrow> jsnum \<Rightarrow> jsnum" where
  "js_or a b = (if js_falsy a then b else a)"

text \<open>\<^verbatim>\<open>a || b\<close> where \<^verbatim>\<open>a\<close> may be \<^verbatim>\<open>undefined\<close>.\<close>

fun js_or_undef :: "jsnum option \<Rightarrow> jsnum \<Rightarrow> jsnum" where
  "js_or_undef None b = b"
| "js_or_undef (Some a) b = js_or a b"

fun js_neg :: "jsnum \<Rightarrow> jsnum" where
  "js_neg (Fin r) = Fin (- r)"
| "js_neg PInf = NInf"
| "js_neg NInf = PInf"
| "js_neg NaN = NaN"

fun js_add :: "jsnum \<Rightarrow> jsnum \<Rightarrow> jsnum" where
  "js_add (Fin a) (Fin b) = Fin (a + b)"
| "js_add NaN y = NaN"
| "js_add x NaN = NaN"
| "js_add PInf NInf = NaN"
| "js_add NInf PInf = NaN"
| "js_add PInf y = PInf"
| "js_add NInf y = NInf"
| "js_add x PInf = PInf"
| "js_add x NInf = NInf"

definition js_sub :: "jsnum \<Rightarrow> jsnum \<Rightarrow> jsnum" where
  "js_sub a b = js_add a (js_neg b)"

text \<open>An infinity of the sign of \<open>r\<close>; zero times infinity is \<^verbatim>\<open>NaN\<close>.\<close>

definition inf_of_sign :: "real \<Rightarrow> jsnum" where
  "inf_of_sign r = (if r = 0 then NaN else if 0 < r then PInf else NInf)"

fun js_mul :: "jsnum \<Rightarrow> jsnum \<Rightarrow> jsnum" where
  "js_mul (Fin a) (Fin b) = Fin (a * b)"
| "js_mul NaN y = NaN"
| "js_mul x NaN = NaN"
| "js_mul (Fin a) PInf = inf_of_sign a"
| "js_mul (Fin a) NInf = inf_of_sign (- a)"
| "js_mul PInf (Fin b) = inf_of_sign b"
| "js_mul NInf (Fin b) = inf_of_sign (- b)"
| "js_mul PInf PInf = PInf"
| "js_mul NInf NInf = PInf"
| "js_mul PInf NInf = NInf"
| "js_mul NInf PInf = NInf"

text \<open>Division; a zero divisor is taken as \<^verbatim>\<open>+0\<close>.\<close>

fun js_div :: "jsnum \<Rightarrow> jsnum \<Rightarrow> jsnum" where
  "js_div (Fin a) (Fin b) = (if b = 0 then inf_of_sign a else Fin (a / b))"
| "js_div NaN y = NaN"
| "js_div x NaN = NaN"
| "js_div (Fin a) PInf = Fin 0"
| "js_div (Fin a) NInf = Fin 0"
| "js_div PInf (Fin b) = (if 0 \<le> b then PInf else NInf)"
| "js_div NInf (Fin b) = (if 0 \<le> b then NInf else PInf)"
| "js_div PInf PInf = NaN"
| "js_div PInf NInf = NaN"
| "js_div NInf PInf = NaN"
| "js_div NInf NInf = NaN"

fun js_abs :: "jsnum \<Rightarrow> jsnum" where
  "js_abs (Fin r) = Fin \<bar>r\<bar>"
| "js_abs PInf = PInf"
| "js_abs NInf = PInf"
| "js_abs NaN = NaN"

fun js_sqrt :: "jsnum \<Rightarrow> jsnum" where
  "js_sqrt (Fin r) = (if r < 0 then NaN else Fin (sqrt r))"
| "js_sqrt PInf = PInf"
| "js_sqrt NInf = NaN"
| "js_sqrt NaN = NaN"

text \<open>Comparisons: every comparison with \<^verbatim>\<open>NaN\<close> is false.\<close>

fun js_lt :: "jsnum \<Rightarrow> jsnum \<Rightarrow> bool" where
  "js_lt (Fin a) (Fin b) = (a < b)"
| "js_lt NaN y = False"
| "js_lt x NaN = False"
| "js_lt PInf y = False"
| "js_lt x NInf = False"
| "js_lt NInf y = True"
| "js_lt x PInf = True"

fun js_le :: "jsnum \<Rightarrow> jsnum \<Rightarrow> bool" where
  "js_le (Fin a) (Fin b) = (a \<le> b)"
| "js_le NaN y = False"
| "js_le x NaN = False"
| "js_le NInf y = True"
| "js_le x PInf = True"
| "js_le PInf y = False"
| "js_le x NInf = False"

definition js_gt :: "jsnum \<Rightarrow> jsnum \<Rightarrow> bool" where
  "js_gt a b = js_lt b a"

definition js_ge :: "jsnum \<Rightarrow> jsnum \<Rightarrow> bool" where
  "js_ge a b = js_le b a"

text \<open>\<^verbatim>\<open>Math.min\<close> and \<^verbatim>\<open>Math.max\<close> of two numbers: \<^verbatim>\<open>NaN\<close> if either is.\<close>

definition js_min :: "jsnum \<Rightarrow> jsnum \<Rightarrow> jsnum" where
  "js_min a b = (if js_isNaN a \<or> js_isNaN b then NaN else if js_le a b then a else b)"

definition js_max :: "jsnum \<Rightarrow> jsnum \<Rightarrow> jsnum" where
  "js_max a b = (if js_isNaN a \<or> js_isNaN b then NaN else if js_le a b then b else a)"

text \<open>\<^verbatim>\<open>Math.atan2(y, x)\<close>.\<close>

definition atan2_real :: "real \<Rightarrow> real \<Rightarrow> real" where
  "atan2_real y x =
     (if 0 < x then arctan (y / x)
      else if x < 0 then (if 0 \<le> y then arctan (y / x) + pi else arctan (y / x) - pi)
      else if 0 < y then pi / 2
      else if y < 0 then - (pi / 2)
      else 0)"

fun js_atan2 :: "jsnum \<Rightarrow> jsnum \<Rightarrow> jsnum" where
  "js_atan2 (Fin y) (Fin x) = Fin (atan2_real y x)"
| "js_atan2 NaN x = NaN"
| "js_atan2 y NaN = NaN"
| "js_atan2 (Fin y) PInf = Fin 0"
| "js_atan2 (Fin y) NInf = (if 0 \<le> y then Fin pi else Fin (- pi))"
| "js_atan2 PInf (Fin x) = Fin (pi / 2)"
| "js_atan2 NInf (Fin x) = Fin (- (pi / 2))"
| "js_atan2 PInf PInf = Fin (pi / 4)"
| "js_atan2 PInf NInf = Fin (3 * pi / 4)"
| "js_atan2 NInf PInf = Fin (- (pi / 4))"
| "js_atan2 NInf NInf = Fin (- (3 * pi / 4))"

text \<open>The length of an array, as a number.\<close>

definition js_length :: "'a list \<Rightarrow> jsnum" where
  "js_length xs = Fin (real (length xs))"

section \<open>Configuration (constants.ml.js)\<close>

datatype label = GOOD | MILD | BAD | INSUFFICIENT

text \<open>\<^verbatim>\<open>LABELS.SLOUCH\<close> is the string \<^verbatim>\<open>'bad'\<close>, the same value as \<^verbatim>\<open>LABELS.BAD\<close>.\<close>

abbreviation SLOUCH :: label where
  "SLOUCH \<equiv> BAD"

record config =
  MIN_CONFIDENCE :: jsnum
  BASELINE_ANGLE :: jsnum
  SAMPLING_WINDOW_MS :: jsnum
  MIN_VALID_FRAMES :: jsnum
  WINDOWS_HISTORY :: jsnum
  WINDOWS_VOTES_REQUIRED :: jsnum
  PERSIST_MS :: jsnum
  ALERT_COOLDOWN_MS :: jsnum
  GOOD_THRESHOLD :: jsnum
  MILD_THRESHOLD :: jsnum
  BAD_THRESHOLD :: jsnum
  MIN_ANGLE :: jsnum
  MAX_ANGLE :: jsnum
  BASELINE_UPDATE_ALPHA :: jsnum
  MODEL_WEIGHT :: jsnum
  THRESHOLD_WEIGHT :: jsnum
  VOICE_MESSAGE :: string
  MIN_ALIGNMENT_SCORE :: jsnum
  SHOULDER_SLOPE_MAX :: jsnum
  FEATURE_COUNT :: nat

definition DEFAULT_CONFIG :: config where
  "DEFAULT_CONFIG = \<lparr>
     MIN_CONFIDENCE = Fin 0.55,
     BASELINE_ANGLE = Fin 5,
     SAMPLING_WINDOW_MS = Fin 5000,
     MIN_VALID_FRAMES = Fin 3,
     WINDOWS_HISTORY = Fin 3,
     WINDOWS_VOTES_REQUIRED = Fin 2,
     PERSIST_MS = Fin 8000,
     ALERT_COOLDOWN_MS = Fin 30000,
     GOOD_THRESHOLD = Fin 5,
     MILD_THRESHOLD = Fin 10,
     BAD_THRESHOLD = Fin 10,
     MIN_ANGLE = Fin 0,
     MAX_ANGLE = Fin 70,
     BASELINE_UPDATE_ALPHA = Fin 0.2,
     MODEL_WEIGHT = Fin 0.7,
     THRESHOLD_WEIGHT = Fin 0.3,
     VOICE_MESSAGE = ''Please correct your posture and sit upright.'',
     MIN_ALIGNMENT_SCORE = Fin 0.4,
     SHOULDER_SLOPE_MAX = Fin 25,
     FEATURE_COUNT = 5 \<rparr>"

definition label_name :: "label \<Rightarrow> string" where
  "label_name l = (case l of GOOD \<Rightarrow> ''good'' | MILD \<Rightarrow> ''mild'' | BAD \<Rightarrow> ''bad''
                   | INSUFFICIENT \<Rightarrow> ''insufficient'')"

section \<open>Data of the pose utilities and of the detector\<close>

text \<open>A parsed keypoint, as \<^verbatim>\<open>parsePoint\<close> returns it.\<close>

record point =
  x :: jsnum
  y :: jsnum
  z :: jsnum
  confidence :: jsnum

text \<open>
  The \<^verbatim>\<open>metadata\<close> object of an accepted frame. Its \<^verbatim>\<open>timestamp\<close> field (a clock
  reading that nothing reads again) is left out.
\<close>

record metadata =
  spineAngle :: jsnum
  spineAngleRel :: jsnum
  headForwardRatio :: jsnum
  shoulderWidthRatio :: jsnum
  shoulderSlope :: jsnum
  frameQuality :: jsnum
  baselineAngle_used :: "jsnum option"

text \<open>An entry of \<^verbatim>\<open>currentWindow\<close>, as \<^verbatim>\<open>collectSample\<close> pushes it.\<close>

record sample =
  s_features :: "jsnum list"
  s_confidence :: jsnum
  angle :: jsnum
  angleRel :: jsnum
  s_timestamp :: jsnum
  s_metadata :: metadata
  weight :: jsnum

text \<open>The result of \<^verbatim>\<open>computeWeightedStats\<close>, and of \<^verbatim>\<open>computeWindowStatistics\<close>.\<close>

record wstats =
  mean :: jsnum
  median :: jsnum
  std :: jsnum
  p25 :: jsnum
  p75 :: jsnum
  trimmedMean :: jsnum
  count :: nat
  min_value :: jsnum
  max_value :: jsnum

record window_statistics = wstats +
  absolute :: "wstats option"

record thresholds =
  good :: jsnum
  mild :: jsnum
  bad :: jsnum

record model_probs =
  prob_good :: jsnum
  prob_slouch :: jsnum

text \<open>
  The status object handed to \<^verbatim>\<open>onUpdate\<close>. The numbers that the source formats with
  \<^verbatim>\<open>toFixed(1)\<close> are kept as numbers; \<^verbatim>\<open>null\<close> and an absent field are \<open>None\<close>; the
  \<^verbatim>\<open>reason\<close> text is left out.
\<close>

record window_status =
  windowLabel :: label
  st_windowIndex :: nat
  validFrames :: nat
  avgAngle :: "jsnum option"
  avgAngleRel :: "jsnum option"
  medianAngleRel :: "jsnum option"
  stdAngleRel :: "jsnum option"
  modelProbabilities :: "model_probs option"

record window_record =
  label :: label
  timestamp :: jsnum
  status :: window_status
  stats :: window_statistics

record alert_data =
  alert_label :: label
  message :: string
  alert_timestamp :: jsnum

record feature_stats =
  fs_count :: nat
  means :: "jsnum list"
  m2 :: "jsnum list"
  stds :: "jsnum list"

record normalization_stats =
  n_means :: "jsnum list"
  n_stds :: "jsnum list"

text \<open>
  What the callbacks receive, in the order of the calls. The callbacks are taken to
  return normally.
\<close>

datatype event =
    StatusUpdate window_status
  | Message string
  | AlertFired alert_data

text \<open>
  A loaded TensorFlow model: from the input vector to the two probabilities that
  \<^verbatim>\<open>dataSync\<close> yields, or \<open>None\<close> when inference throws.
\<close>

type_synonym tf_model = "jsnum list \<Rightarrow> (jsnum \<times> jsnum) option"

text \<open>
  The fields of \<^verbatim>\<open>PostureDetector\<close>. Of the keypoint source only whether it is set
  is state; what a poll returns is an argument of the operation that polls. The
  callbacks are not state: their calls are the events an operation returns.
\<close>

record detector =
  getKeypoints_set :: bool
  config :: config
  model :: "tf_model option"
  normalizationStats :: "normalization_stats option"
  baselineAngle :: "jsnum option"
  isRunning :: bool
  detectionTimer :: "nat option"
  windowHistory :: "window_record list"
  currentWindow :: "sample list"
  windowStartTime :: "jsnum option"
  windowIndex :: nat
  lastAlertTime :: jsnum
  isMuted :: bool
  snoozeUntil :: jsnum
  userGestureAllowed :: bool
  badPersistenceMs :: jsnum
  featureStats :: feature_stats
  personalizedThresholds :: "thresholds option"
  lastClassification :: "label option"

section \<open>Pose utilities: feature extraction\<close>

subsection \<open>Keypoint input\<close>

text \<open>
  A raw keypoint is an array of numbers, an object with numeric fields (an absent field
  is \<open>None\<close>), or some other truthy value. A falsy entry (\<^verbatim>\<open>null\<close>, \<^verbatim>\<open>undefined\<close>, \<^verbatim>\<open>0\<close>)
  is \<open>None\<close> where an entry is expected.
\<close>

record point_fields =
  f_x :: "jsnum option"
  f_X :: "jsnum option"
  f_y :: "jsnum option"
  f_Y :: "jsnum option"
  f_z :: "jsnum option"
  f_Z :: "jsnum option"
  f_confidence :: "jsnum option"
  f_score :: "jsnum option"
  f_visibility :: "jsnum option"

datatype raw_point =
    PointArray "jsnum list"
  | PointObject point_fields
  | PointOther

text \<open>
  The keypoints argument: an array of entries or an object with named entries. A
  \<^verbatim>\<open>null\<close>, \<^verbatim>\<open>undefined\<close> or non-object argument is \<open>None\<close> where the argument is passed.
\<close>

datatype keypoints =
    KeypointArray "raw_point option list"
  | KeypointObject "(string \<times> raw_point option) list"

datatype extract_error =
    InvalidKeypointsObject
  | MissingRequiredKeypoint string
  | LowConfidence jsnum
  | InvalidSpineAngle jsnum
  | InvalidFeatureValues

text \<open>The \<^verbatim>\<open>metadata\<close> of a result: of an accepted frame, or \<^verbatim>\<open>{error: message}\<close>.\<close>

datatype result_metadata = FrameMeta metadata | ErrorMeta extract_error

text \<open>The object \<^verbatim>\<open>computeFeaturesFromKeypoints\<close> returns; \<^verbatim>\<open>features: null\<close> is \<open>None\<close>.\<close>

record feature_result =
  features :: "jsnum list option"
  r_confidence :: jsnum
  r_metadata :: result_metadata

text \<open>The names of the five required points, in the order the source checks them.\<close>

definition required :: "string list" where
  "required = [''left_shoulder'', ''right_shoulder'', ''left_hip'', ''right_hip'', ''nose'']"

text \<open>\<^verbatim>\<open>xs[i]\<close>: \<^verbatim>\<open>undefined\<close> out of range.\<close>

definition js_index :: "'a list \<Rightarrow> nat \<Rightarrow> 'a option" where
  "js_index xs i = (if i < length xs then Some (xs ! i) else None)"

definition parsePoint :: "raw_point \<Rightarrow> point" where
  "parsePoint p =
     (case p of
        PointArray a \<Rightarrow>
          \<lparr> x = js_or_undef (js_index a 0) (Fin 0),
            y = js_or_undef (js_index a 1) (Fin 0),
            z = (if length a > 2 then a ! 2 else Fin 0),
            confidence = (if length a > 3 then a ! 3 else if length a = 3 then a ! 2 else Fin 1) \<rparr>
      | PointObject f \<Rightarrow>
          \<lparr> x = js_or_undef (f_x f) (js_or_undef (f_X f) (Fin 0)),
            y = js_or_undef (f_y f) (js_or_undef (f_Y f) (Fin 0)),
            z = js_or_undef (f_z f) (js_or_undef (f_Z f) (Fin 0)),
            confidence = js_or_undef (f_confidence f)
                           (js_or_undef (f_score f) (js_or_undef (f_visibility f) (Fin 1))) \<rparr>
      | PointOther \<Rightarrow> \<lparr> x = Fin 0, y = Fin 0, z = Fin 0, confidence = Fin 0 \<rparr>)"

definition keypoint_names :: "string list" where
  "keypoint_names =
     [''nose'', ''left_eye'', ''right_eye'', ''left_ear'', ''right_ear'',
      ''left_shoulder'', ''right_shoulder'', ''left_elbow'', ''right_elbow'',
      ''left_wrist'', ''right_wrist'', ''left_hip'', ''right_hip'',
      ''left_knee'', ''right_knee'', ''left_ankle'', ''right_ankle'']"

text \<open>The \<^verbatim>\<open>forEach\<close> of the array case, from index \<open>i\<close> on.\<close>

fun parse_array :: "nat \<Rightarrow> raw_point option list \<Rightarrow> (string \<rightharpoonup> point) \<Rightarrow> (string \<rightharpoonup> point)" where
  "parse_array i [] points = points"
| "parse_array i (p # ps) points =
     parse_array (Suc i) ps
       (case p of
          Some rp \<Rightarrow> (if i < length keypoint_names
                      then points(keypoint_names ! i \<mapsto> parsePoint rp) else points)
        | None \<Rightarrow> points)"

text \<open>The \<^verbatim>\<open>forEach\<close> over \<^verbatim>\<open>Object.entries\<close>.\<close>

fun parse_entries :: "(string \<times> raw_point option) list \<Rightarrow> (string \<rightharpoonup> point) \<Rightarrow> (string \<rightharpoonup> point)" where
  "parse_entries [] points = points"
| "parse_entries ((name, p) # es) points =
     parse_entries es
       (case p of Some rp \<Rightarrow> points(name \<mapsto> parsePoint rp) | None \<Rightarrow> points)"

definition parseKeypoints :: "keypoints \<Rightarrow> (string \<rightharpoonup> point)" where
  "parseKeypoints k =
     (case k of
        KeypointArray ps \<Rightarrow> parse_array 0 ps Map.empty
      | KeypointObject es \<Rightarrow> parse_entries es Map.empty)"

subsection \<open>Sorting as \<^verbatim>\<open>Array.prototype.sort\<close> does with a comparator\<close>

text \<open>
  The sort is stable, and a comparator result that is \<^verbatim>\<open>NaN\<close> counts as \<^verbatim>\<open>0\<close>. Where
  the comparator is not a consistent order (an entry is \<^verbatim>\<open>NaN\<close> or infinite) the
  language leaves the order to the implementation; this is one such order.
\<close>

fun js_insert :: "('a \<Rightarrow> 'a \<Rightarrow> jsnum) \<Rightarrow> 'a \<Rightarrow> 'a list \<Rightarrow> 'a list" where
  "js_insert cmp a [] = [a]"
| "js_insert cmp a (b # bs) =
     (if js_gt (cmp a b) (Fin 0) then b # js_insert cmp a bs else a # b # bs)"

definition js_sort :: "('a \<Rightarrow> 'a \<Rightarrow> jsnum) \<Rightarrow> 'a list \<Rightarrow> 'a list" where
  "js_sort cmp xs = foldr (js_insert cmp) xs []"

subsection \<open>The five features\<close>

text \<open>The five required points, once all are known to be present.\<close>

record required_points =
  left_shoulder :: point
  right_shoulder :: point
  left_hip :: point
  right_hip :: point
  nose :: point

definition eps :: jsnum where
  "eps = Fin (1 / 1000000)"

definition MAX_HISTORY :: nat where
  "MAX_HISTORY = 5"

definition to_degrees :: "jsnum \<Rightarrow> jsnum" where
  "to_degrees r = js_div (js_mul r (Fin 180)) (Fin pi)"

definition midpoint :: "jsnum \<Rightarrow> jsnum \<Rightarrow> jsnum" where
  "midpoint a b = js_div (js_add a b) (Fin 2)"

text \<open>
  \<^verbatim>\<open>computeSpineAngle\<close>: takes the module-level smoothing buffer \<^verbatim>\<open>angleHistory\<close> and
  returns it as the call leaves it.
\<close>

definition computeSpineAngle :: "required_points \<Rightarrow> jsnum list \<Rightarrow> jsnum \<times> jsnum list" where
  "computeSpineAngle points angleHistory =
     (let leftShoulder = left_shoulder points;
          rightShoulder = right_shoulder points;
          leftHip = left_hip points;
          rightHip = right_hip points;
          vector_x = js_sub (midpoint (x leftHip) (x rightHip)) (midpoint (x leftShoulder) (x rightShoulder));
          vector_y = js_sub (midpoint (y leftHip) (y rightHip)) (midpoint (y leftShoulder) (y rightShoulder));
          vector_z = js_sub (midpoint (z leftHip) (z rightHip)) (midpoint (z leftShoulder) (z rightShoulder));
          absY = js_add (js_abs vector_y) eps;
          absX = js_abs vector_x;
          absZ = js_abs vector_z;
          forwardAngle = to_degrees (js_atan2 absZ absY);
          sideAngle = to_degrees (js_atan2 absX absY);
          combined = js_sqrt (js_add (js_mul forwardAngle forwardAngle)
                                     (js_mul (js_mul sideAngle (Fin 0.3)) (js_mul sideAngle (Fin 0.3))));
          pushed = angleHistory @ [combined];
          history = (if length pushed > MAX_HISTORY then tl pushed else pushed);
          sorted = js_sort js_sub history;
          med = sorted ! (length sorted div 2)
      in (js_min med (Fin 90), history))"

definition computeHeadForwardRatio :: "required_points \<Rightarrow> jsnum" where
  "computeHeadForwardRatio points =
     (let leftShoulder = left_shoulder points;
          rightShoulder = right_shoulder points;
          shoulderMid_x = midpoint (x leftShoulder) (x rightShoulder);
          shoulderDepth = midpoint (z leftShoulder) (z rightShoulder);
          dx = js_sub (x rightShoulder) (x leftShoulder);
          dy = js_sub (y rightShoulder) (y leftShoulder);
          shoulderWidth = js_add (js_sqrt (js_add (js_mul dx dx) (js_mul dy dy))) eps;
          forwardDist = js_div (js_abs (js_sub (z (nose points)) shoulderDepth))
                               (js_add (js_abs shoulderWidth) eps);
          fallback = js_div (js_abs (js_sub (x (nose points)) shoulderMid_x))
                            (js_add (js_abs shoulderWidth) eps)
      in js_min (if js_isFinite forwardDist \<and> js_gt forwardDist (Fin 0) then forwardDist else fallback)
                (Fin 2.5))"

definition computeShoulderWidthRatio :: "required_points \<Rightarrow> jsnum" where
  "computeShoulderWidthRatio points =
     (let dx = js_sub (x (right_shoulder points)) (x (left_shoulder points));
          dy = js_sub (y (right_shoulder points)) (y (left_shoulder points));
          width = js_sqrt (js_add (js_mul dx dx) (js_mul dy dy))
      in js_min (js_div width (Fin 0.25)) (Fin 2))"

definition computeShoulderSlope :: "required_points \<Rightarrow> jsnum" where
  "computeShoulderSlope points =
     (let dy = js_sub (y (right_shoulder points)) (y (left_shoulder points));
          dx = js_add (js_sub (x (right_shoulder points)) (x (left_shoulder points))) eps
      in js_abs (to_degrees (js_atan2 dy dx)))"

definition computeFrameQuality :: "jsnum \<Rightarrow> jsnum \<Rightarrow> jsnum" where
  "computeFrameQuality conf slope =
     (let alignmentScore =
            js_sub (Fin 1) (js_min (Fin 1) (js_div (js_abs slope) (SHOULDER_SLOPE_MAX DEFAULT_CONFIG)))
      in js_max (Fin 0) (js_min (Fin 1) (js_mul conf alignmentScore)))"

text \<open>\<^verbatim>\<open>p.confidence || p.score || 0\<close> on a parsed point, which has no \<^verbatim>\<open>score\<close>.\<close>

definition point_confidence :: "point \<Rightarrow> jsnum" where
  "point_confidence p = js_or (confidence p) (Fin 0)"

text \<open>The \<^verbatim>\<open>try\<close> block from the confidence average on, for points that are all present.\<close>

definition extract_features ::
  "required_points \<Rightarrow> jsnum option \<Rightarrow> jsnum list \<Rightarrow> (extract_error + feature_result) \<times> jsnum list" where
  "extract_features points baseline angleHistory =
     (let confidences = map point_confidence
            [left_shoulder points, right_shoulder points, left_hip points, right_hip points, nose points];
          avgConfidence = js_div (foldl js_add (Fin 0) confidences) (js_length confidences)
      in if js_lt avgConfidence (MIN_CONFIDENCE DEFAULT_CONFIG)
         then (Inl (LowConfidence avgConfidence), angleHistory)
         else
           (case computeSpineAngle points angleHistory of
              (spine, history) \<Rightarrow>
                if js_lt spine (MIN_ANGLE DEFAULT_CONFIG) \<or> js_gt spine (MAX_ANGLE DEFAULT_CONFIG)
                then (Inl (InvalidSpineAngle spine), history)
                else
                  (let spineRel = js_abs (js_sub spine (case baseline of Some b \<Rightarrow> b | None \<Rightarrow> Fin 0));
                       headForward = computeHeadForwardRatio points;
                       shoulderWidth = computeShoulderWidthRatio points;
                       slope = computeShoulderSlope points;
                       quality = computeFrameQuality avgConfidence slope;
                       fs = [spine, spineRel, headForward, shoulderWidth, avgConfidence]
                   in if list_ex (\<lambda>f. \<not> js_isFinite f \<or> js_isNaN f) fs
                      then (Inl InvalidFeatureValues, history)
                      else (Inr \<lparr> features = Some fs,
                                 r_confidence = avgConfidence,
                                 r_metadata = FrameMeta
                                   \<lparr> spineAngle = spine, spineAngleRel = spineRel,
                                     headForwardRatio = headForward,
                                     shoulderWidthRatio = shoulderWidth,
                                     shoulderSlope = slope, frameQuality = quality,
                                     baselineAngle_used = baseline \<rparr> \<rparr>,
                            history))))"

text \<open>
  The whole \<^verbatim>\<open>try\<close> block. The loop over the five required names is written out in
  its order; the first absent point throws.
\<close>

definition try_computeFeatures ::
  "keypoints option \<Rightarrow> jsnum option \<Rightarrow> jsnum list \<Rightarrow> (extract_error + feature_result) \<times> jsnum list" where
  "try_computeFeatures keypoints baseline angleHistory =
     (case keypoints of
        None \<Rightarrow> (Inl InvalidKeypointsObject, angleHistory)
      | Some k \<Rightarrow>
          (let points = parseKeypoints k in
           case points ''left_shoulder'' of
             None \<Rightarrow> (Inl (MissingRequiredKeypoint ''left_shoulder''), angleHistory)
           | Some ls \<Rightarrow>
           (case points ''right_shoulder'' of
             None \<Rightarrow> (Inl (MissingRequiredKeypoint ''right_shoulder''), angleHistory)
           | Some rs \<Rightarrow>
           (case points ''left_hip'' of
             None \<Rightarrow> (Inl (MissingRequiredKeypoint ''left_hip''), angleHistory)
           | Some lh \<Rightarrow>
           (case points ''right_hip'' of
             None \<Rightarrow> (Inl (MissingRequiredKeypoint ''right_hip''), angleHistory)
           | Some rh \<Rightarrow>
           (case points ''nose'' of
             None \<Rightarrow> (Inl (MissingRequiredKeypoint ''nose''), angleHistory)
           | Some n \<Rightarrow>
               extract_features
                 \<lparr> left_shoulder = ls, right_shoulder = rs, left_hip = lh, right_hip = rh, nose = n \<rparr>
                 baseline angleHistory))))))"

text \<open>
  \<^verbatim>\<open>computeFeaturesFromKeypoints\<close>: the \<^verbatim>\<open>catch\<close> turns every throw into the rejection
  object. The baseline argument is \<open>None\<close> for \<^verbatim>\<open>null\<close>, which subtracts as \<^verbatim>\<open>0\<close>;
  a caller that omits it passes the default \<^verbatim>\<open>DEFAULT_CONFIG.BASELINE_ANGLE\<close>.
\<close>

definition computeFeaturesFromKeypoints ::
  "keypoints option \<Rightarrow> jsnum option \<Rightarrow> jsnum list \<Rightarrow> feature_result \<times> jsnum list" where
  "computeFeaturesFromKeypoints keypoints baseline angleHistory =
     (case try_computeFeatures keypoints baseline angleHistory of
        (Inr r, history) \<Rightarrow> (r, history)
      | (Inl e, history) \<Rightarrow>
          (\<lparr> features = None, r_confidence = Fin 0, r_metadata = ErrorMeta e \<rparr>, history))"

definition hasValidPose :: "keypoints option \<Rightarrow> jsnum \<Rightarrow> jsnum list \<Rightarrow> bool \<times> jsnum list" where
  "hasValidPose keypoints minConfidence angleHistory =
     (case computeFeaturesFromKeypoints keypoints (Some (BASELINE_ANGLE DEFAULT_CONFIG)) angleHistory of
        (r, history) \<Rightarrow> (js_ge (r_confidence r) minConfidence \<and> features r \<noteq> None, history))"

section \<open>Pose utilities: window statistics and normalization\<close>

record entry =
  e_value :: jsnum
  e_weight :: jsnum

text \<open>The \<^verbatim>\<open>percentile\<close> loop: the first entry at which the running share reaches the target.\<close>

fun percentile_walk :: "jsnum \<Rightarrow> jsnum \<Rightarrow> jsnum \<Rightarrow> entry list \<Rightarrow> jsnum option" where
  "percentile_walk totalWeight target acc [] = None"
| "percentile_walk totalWeight target acc (e # es) =
     (let acc' = js_add acc (js_div (e_weight e) totalWeight)
      in if js_ge acc' target then Some (e_value e)
         else percentile_walk totalWeight target acc' es)"

definition percentile :: "entry list \<Rightarrow> jsnum \<Rightarrow> jsnum \<Rightarrow> jsnum" where
  "percentile sorted_entries totalWeight target =
     (case percentile_walk totalWeight target (Fin 0) sorted_entries of
        Some v \<Rightarrow> v
      | None \<Rightarrow> e_value (last sorted_entries))"

text \<open>
  \<^verbatim>\<open>computeWeightedStats\<close>. On an empty array the source throws (it reads a field of
  \<^verbatim>\<open>sorted[0]\<close>); that is \<open>None\<close>. Both callers pass a non-empty array.
\<close>

definition computeWeightedStats :: "entry list \<Rightarrow> wstats option" where
  "computeWeightedStats entries =
     (let sorted = js_sort (\<lambda>a b. js_sub (e_value a) (e_value b)) entries;
          totalWeight = js_or (foldl (\<lambda>sum e. js_add sum (e_weight e)) (Fin 0) entries) (Fin 1);
          weightedMean =
            js_div (foldl (\<lambda>sum e. js_add sum (js_mul (e_value e) (e_weight e))) (Fin 0) entries)
                   totalWeight;
          weightedVariance =
            js_div (foldl (\<lambda>sum e. let diff = js_sub (e_value e) weightedMean
                                     in js_add sum (js_mul (js_mul (e_weight e) diff) diff))
                          (Fin 0) entries)
                   totalWeight;
          sd = js_sqrt (js_max (Fin 0) weightedVariance);
          trimmed = map fst (filter
                      (\<lambda>(e, idx). let rank = js_div (Fin (real idx))
                                                      (js_or (js_sub (js_length sorted) (Fin 1)) (Fin 1))
                                   in js_ge rank (Fin 0.1) \<and> js_le rank (Fin 0.9))
                      (zip sorted [0 ..< length sorted]));
          trimmedWeight = js_or (foldl (\<lambda>sum e. js_add sum (e_weight e)) (Fin 0) trimmed) (Fin 1);
          trimmedMean' =
            (if trimmed \<noteq> []
             then js_div (foldl (\<lambda>sum e. js_add sum (js_mul (e_value e) (e_weight e))) (Fin 0) trimmed)
                         trimmedWeight
             else weightedMean)
      in if sorted = [] then None
         else Some \<lparr> mean = weightedMean,
                     median = percentile sorted totalWeight (Fin 0.5),
                     std = sd,
                     p25 = percentile sorted totalWeight (Fin 0.25),
                     p75 = percentile sorted totalWeight (Fin 0.75),
                     trimmedMean = trimmedMean',
                     count = length entries,
                     min_value = e_value (hd sorted),
                     max_value = e_value (last sorted) \<rparr>)"

text \<open>
  \<^verbatim>\<open>computeWindowStatistics\<close>, on the samples \<^verbatim>\<open>collectSample\<close> pushes: their
  \<^verbatim>\<open>metadata\<close> holds both angles and their \<^verbatim>\<open>weight\<close> is set, so the \<^verbatim>\<open>??\<close>
  fallbacks are not taken. \<open>None\<close> is \<^verbatim>\<open>null\<close>.
\<close>

definition computeWindowStatistics :: "sample list \<Rightarrow> window_statistics option" where
  "computeWindowStatistics samples =
     (if samples = [] then None
      else
        (let weight_of = (\<lambda>s. js_max (Fin 0.001) (weight s));
             relEntries = map (\<lambda>s. \<lparr> e_value = spineAngleRel (s_metadata s), e_weight = weight_of s \<rparr>)
                            (filter (\<lambda>s. js_isFinite (spineAngleRel (s_metadata s))
                                          \<and> js_ge (spineAngleRel (s_metadata s)) (Fin 0)) samples);
             absEntries = map (\<lambda>s. \<lparr> e_value = spineAngle (s_metadata s), e_weight = weight_of s \<rparr>)
                            (filter (\<lambda>s. js_isFinite (spineAngle (s_metadata s))
                                          \<and> js_ge (spineAngle (s_metadata s)) (Fin 0)) samples)
         in if relEntries = [] then None
            else
              (case computeWeightedStats relEntries of
                 None \<Rightarrow> None
               | Some relStats \<Rightarrow>
                   Some (wstats.extend relStats
                     \<lparr> absolute = (if absEntries \<noteq> [] then computeWeightedStats absEntries else None) \<rparr>))))"

text \<open>
  \<^verbatim>\<open>normalizeFeatures\<close> with statistics given (the detector never passes \<^verbatim>\<open>null\<close>).
\<close>

definition normalizeFeatures :: "jsnum list \<Rightarrow> normalization_stats \<Rightarrow> jsnum list" where
  "normalizeFeatures fs nstats =
     map (\<lambda>(f, i).
            let m = js_or_undef (js_index (n_means nstats) i) (Fin 0);
                sd = js_or_undef (js_index (n_stds nstats) i) (Fin 1)
            in if sd = Fin 0 then Fin 0 else js_div (js_sub f m) sd)
         (zip fs [0 ..< length fs])"

section \<open>Model service: predict\<close>

text \<open>
  The object \<^verbatim>\<open>predict\<close> returns. Its \<^verbatim>\<open>probs\<close> is an object whose two property names
  are the label strings \<^verbatim>\<open>'good'\<close> and \<^verbatim>\<open>'bad'\<close>.
\<close>

record model_prediction =
  p_label :: label
  probs :: "(string \<times> jsnum) list"
  p_confidence :: jsnum

text \<open>\<open>None\<close>: the call throws (a wrong input length, or inference fails).\<close>

definition predict :: "tf_model \<Rightarrow> jsnum list \<Rightarrow> model_prediction option" where
  "predict m fs =
     (if length fs \<noteq> FEATURE_COUNT DEFAULT_CONFIG then None
      else
        (case m fs of
           None \<Rightarrow> None
         | Some (goodProb, slouchProb) \<Rightarrow>
             Some \<lparr> p_label = (if js_gt slouchProb goodProb then SLOUCH else GOOD),
                    probs = [(label_name GOOD, goodProb), (label_name SLOUCH, slouchProb)],
                    p_confidence = js_max goodProb slouchProb \<rparr>))"

text \<open>Reading property \<open>k\<close> of an object: \<^verbatim>\<open>undefined\<close> (\<open>None\<close>) when it has none.\<close>

definition js_property :: "(string \<times> 'a) list \<Rightarrow> string \<Rightarrow> 'a option" where
  "js_property obj k = map_of obj k"

section \<open>Threshold classification with hysteresis (PostureDetector)\<close>

definition getThresholds :: "detector \<Rightarrow> thresholds" where
  "getThresholds d =
     (case personalizedThresholds d of
        Some t \<Rightarrow> t
      | None \<Rightarrow> \<lparr> good = GOOD_THRESHOLD (config d),
                  mild = MILD_THRESHOLD (config d),
                  bad = BAD_THRESHOLD (config d) \<rparr>)"

text \<open>The three cutoffs as \<^verbatim>\<open>thresholdClassification\<close> reads them.\<close>

definition goodThreshold :: "detector \<Rightarrow> jsnum" where
  "goodThreshold d = js_or (good (getThresholds d)) (GOOD_THRESHOLD DEFAULT_CONFIG)"

definition mildThreshold :: "detector \<Rightarrow> jsnum" where
  "mildThreshold d = js_or (mild (getThresholds d)) (MILD_THRESHOLD DEFAULT_CONFIG)"

definition badThreshold :: "detector \<Rightarrow> jsnum" where
  "badThreshold d = js_or (bad (getThresholds d)) (BAD_THRESHOLD DEFAULT_CONFIG)"

definition hysteresis :: jsnum where
  "hysteresis = Fin 1.5"

text \<open>Returns the label and the detector with \<^verbatim>\<open>lastClassification\<close> as the call leaves it.\<close>

definition thresholdClassification :: "detector \<Rightarrow> jsnum \<Rightarrow> label \<times> detector" where
  "thresholdClassification d a =
     (let currentLabel = lastClassification d in
      if currentLabel = Some GOOD then
        (if js_le a (js_add (mildThreshold d) hysteresis) then (GOOD, d)
         else if js_le a (js_add (badThreshold d) hysteresis) then (MILD, d)
         else (BAD, d\<lparr>lastClassification := Some BAD\<rparr>))
      else if currentLabel = Some MILD then
        (if js_le a (goodThreshold d) then (GOOD, d\<lparr>lastClassification := Some GOOD\<rparr>)
         else if js_le a (badThreshold d) then (MILD, d)
         else (BAD, d\<lparr>lastClassification := Some BAD\<rparr>))
      else
        (if js_le a (goodThreshold d) then (GOOD, d\<lparr>lastClassification := Some GOOD\<rparr>)
         else if js_le a (mildThreshold d) then (MILD, d\<lparr>lastClassification := Some MILD\<rparr>)
         else (BAD, d\<lparr>lastClassification := Some BAD\<rparr>)))"

section \<open>The detector (PostureDetector)\<close>

text \<open>
  What an operation reads from its environment: the clock readings of its
  \<^verbatim>\<open>Date.now()\<close> calls (when the window is recorded, in \<^verbatim>\<open>checkForAlert\<close>, in
  \<^verbatim>\<open>triggerAlert\<close>) and whether the browser offers speech synthesis.
\<close>

record env =
  t_record :: jsnum
  t_check :: jsnum
  t_alert :: jsnum
  speechSynthesis :: bool

definition createFeatureStats :: feature_stats where
  "createFeatureStats =
     \<lparr> fs_count = 0,
       means = replicate (FEATURE_COUNT DEFAULT_CONFIG) (Fin 0),
       m2 = replicate (FEATURE_COUNT DEFAULT_CONFIG) (Fin 0),
       stds = replicate (FEATURE_COUNT DEFAULT_CONFIG) (Fin 1) \<rparr>"

text \<open>The constructor. \<^verbatim>\<open>lastClassification\<close> is not set there: \<^verbatim>\<open>undefined\<close>, read as \<^verbatim>\<open>null\<close>.\<close>

definition new_PostureDetector :: detector where
  "new_PostureDetector =
     \<lparr> getKeypoints_set = False,
       config = DEFAULT_CONFIG,
       model = None,
       normalizationStats = None,
       baselineAngle = None,
       isRunning = False,
       detectionTimer = None,
       windowHistory = [],
       currentWindow = [],
       windowStartTime = None,
       windowIndex = 0,
       lastAlertTime = Fin 0,
       isMuted = False,
       snoozeUntil = Fin 0,
       userGestureAllowed = False,
       badPersistenceMs = Fin 0,
       featureStats = createFeatureStats,
       personalizedThresholds = None,
       lastClassification = None \<rparr>"

subsection \<open>Start, stop, status\<close>

datatype detector_error = NotInitialized

text \<open>
  \<^verbatim>\<open>startDetector\<close>; \<open>now\<close> is the clock reading and \<open>timer\<close> the handle that
  \<^verbatim>\<open>setInterval\<close> returns in \<^verbatim>\<open>startDetectionLoop\<close>.
\<close>

definition startDetector :: "jsnum \<Rightarrow> nat \<Rightarrow> detector \<Rightarrow> detector_error + detector \<times> event list" where
  "startDetector now timer d =
     (if \<not> getKeypoints_set d then Inl NotInitialized
      else if isRunning d then Inr (d, [Message ''Detector already running''])
      else Inr (d\<lparr> isRunning := True,
                    windowHistory := [],
                    currentWindow := [],
                    windowStartTime := Some now,
                    windowIndex := 0,
                    badPersistenceMs := Fin 0,
                    featureStats := createFeatureStats,
                    personalizedThresholds := None,
                    lastClassification := None,
                    detectionTimer := Some timer \<rparr>,
                [Message ''Detector started'']))"

definition stopDetector :: "detector \<Rightarrow> detector \<times> event list" where
  "stopDetector d =
     (if \<not> isRunning d then (d, [])
      else (d\<lparr> isRunning := False,
               detectionTimer := None,
               currentWindow := [],
               windowStartTime := None \<rparr>,
            [Message ''Detector stopped'']))"

record detector_status =
  running :: bool
  modelLoaded :: bool
  muted :: bool
  snoozed :: bool
  st_userGestureAllowed :: bool
  st_windowHistory :: nat
  st_badPersistenceMs :: jsnum

definition isModelLoaded :: "detector \<Rightarrow> bool" where
  "isModelLoaded d = (model d \<noteq> None)"

definition getStatus :: "jsnum \<Rightarrow> detector \<Rightarrow> detector_status" where
  "getStatus now d =
     \<lparr> running = isRunning d,
       modelLoaded = isModelLoaded d,
       muted = isMuted d,
       snoozed = js_lt now (snoozeUntil d),
       st_userGestureAllowed = userGestureAllowed d,
       st_windowHistory = length (windowHistory d),
       st_badPersistenceMs = badPersistenceMs d \<rparr>"

text \<open>
  The module keeps one detector in \<^verbatim>\<open>detectorInstance\<close> (\<open>None\<close> before
  \<^verbatim>\<open>initDetector\<close>). Its exported \<^verbatim>\<open>stopDetector\<close> and \<^verbatim>\<open>getStatus\<close> pass the call on;
  without a detector the first does nothing and the second returns \<^verbatim>\<open>{running: false}\<close>.
\<close>

definition stopDetector_export :: "detector option \<Rightarrow> detector option \<times> event list" where
  "stopDetector_export detectorInstance =
     (case detectorInstance of
        None \<Rightarrow> (None, [])
      | Some d \<Rightarrow> (case stopDetector d of (d', evs) \<Rightarrow> (Some d', evs)))"

datatype exported_status = Status detector_status | NotRunning

definition getStatus_export :: "jsnum \<Rightarrow> detector option \<Rightarrow> exported_status" where
  "getStatus_export now detectorInstance =
     (case detectorInstance of
        None \<Rightarrow> NotRunning
      | Some d \<Rightarrow> Status (getStatus now d))"

text \<open>The \<^verbatim>\<open>running\<close> field of what the exported \<^verbatim>\<open>getStatus\<close> returns.\<close>

definition status_running :: "exported_status \<Rightarrow> bool" where
  "status_running s = (case s of Status st \<Rightarrow> running st | NotRunning \<Rightarrow> False)"

subsection \<open>Alerts\<close>

text \<open>
  \<^verbatim>\<open>triggerAlert\<close>: the \<^verbatim>\<open>onAlert\<close> call, then the voice message or the notice that it
  was skipped. The beep and the speech themselves are not modelled.
\<close>

definition triggerAlert :: "env \<Rightarrow> detector \<Rightarrow> event list" where
  "triggerAlert e d =
     [AlertFired \<lparr> alert_label = BAD, message = VOICE_MESSAGE (config d), alert_timestamp = t_alert e \<rparr>]
     @ (if userGestureAllowed d \<and> speechSynthesis e
        then [Message (''Voice alert: '' @ VOICE_MESSAGE (config d))]
        else if \<not> userGestureAllowed d
        then [Message ''Voice alert skipped: user gesture not enabled. Call setUserGesture() after button click.'']
        else [])"

text \<open>\<^verbatim>\<open>ToIntegerOrInfinity\<close> on a finite number: truncation towards zero.\<close>

definition js_trunc :: "real \<Rightarrow> int" where
  "js_trunc r = (if 0 \<le> r then \<lfloor>r\<rfloor> else \<lceil>r\<rceil>)"

text \<open>\<^verbatim>\<open>xs.slice(start)\<close>.\<close>

definition js_slice_from :: "jsnum \<Rightarrow> 'a list \<Rightarrow> 'a list" where
  "js_slice_from start xs =
     (case start of
        NaN \<Rightarrow> xs
      | NInf \<Rightarrow> xs
      | PInf \<Rightarrow> []
      | Fin r \<Rightarrow>
          (let k = js_trunc r; len = int (length xs)
           in if k < 0 then drop (nat (max (len + k) 0)) xs else drop (nat (min k len)) xs))"

definition checkForAlert :: "env \<Rightarrow> detector \<Rightarrow> detector \<times> event list" where
  "checkForAlert e d =
     (let now = t_check e in
      if length (windowHistory d) < 2 then (d, [])
      else
        (let recentWindows =
               js_slice_from (js_or (js_neg (WINDOWS_HISTORY (config d))) (Fin 3)) (windowHistory d);
             badWindows = filter (\<lambda>w. label w = BAD) recentWindows;
             badCount = length badWindows;
             consecutiveBad =
               (length recentWindows \<ge> 2
                \<and> label (recentWindows ! (length recentWindows - 1)) = BAD
                \<and> label (recentWindows ! (length recentWindows - 2)) = BAD);
             votesMet = js_ge (Fin (real badCount)) (js_or (WINDOWS_VOTES_REQUIRED (config d)) (Fin 2));
             persistenceMet = js_ge (badPersistenceMs d) (js_or (PERSIST_MS (config d)) (Fin 8000));
             cooldownMet =
               js_ge (js_sub now (lastAlertTime d)) (js_or (ALERT_COOLDOWN_MS (config d)) (Fin 30000));
             notSnoozed = (\<not> isMuted d \<and> js_gt now (snoozeUntil d))
         in if (consecutiveBad \<or> votesMet) \<and> persistenceMet \<and> cooldownMet \<and> notSnoozed
            then (d\<lparr>lastAlertTime := now\<rparr>, triggerAlert e (d\<lparr>lastAlertTime := now\<rparr>))
            else (d, [])))"

subsection \<open>Adaptive baseline\<close>

definition updateAdaptiveBaseline :: "window_statistics \<Rightarrow> detector \<Rightarrow> detector" where
  "updateAdaptiveBaseline st d =
     (case absolute st of
        None \<Rightarrow> d
      | Some ab \<Rightarrow>
          (let absoluteMedian = median ab in
           if \<not> js_isFinite absoluteMedian then d
           else
             d\<lparr> baselineAngle :=
                   (case baselineAngle d of
                      None \<Rightarrow> Some absoluteMedian
                    | Some b \<Rightarrow>
                        Some (js_add (js_mul (js_sub (Fin 1) (BASELINE_UPDATE_ALPHA (config d))) b)
                                     (js_mul (BASELINE_UPDATE_ALPHA (config d)) absoluteMedian))),
                personalizedThresholds :=
                   Some \<lparr> good = js_min (GOOD_THRESHOLD (config d)) (js_max (Fin 0.5) (js_add (median st) (Fin 0.2))),
                          mild = js_min (MILD_THRESHOLD (config d))
                                   (js_max (js_add (GOOD_THRESHOLD (config d)) (Fin 0.5)) (js_add (median st) (Fin 1))),
                          bad = js_max (BAD_THRESHOLD (config d)) (js_add (median st) (Fin 2)) \<rparr> \<rparr>))"

subsection \<open>Closing a window\<close>

definition featureStatsToNormalization :: "detector \<Rightarrow> normalization_stats option" where
  "featureStatsToNormalization d =
     (if js_lt (Fin (real (fs_count (featureStats d)))) (MIN_VALID_FRAMES DEFAULT_CONFIG) then None
      else Some \<lparr> n_means = means (featureStats d),
                  n_stds = map (\<lambda>sd. if sd = Fin 0 then Fin 1 else sd) (stds (featureStats d)) \<rparr>)"

text \<open>
  \<^verbatim>\<open>avgFeatures[i] += value\<close> for one sample: past the end of the accumulator the sum
  with \<^verbatim>\<open>undefined\<close> is \<^verbatim>\<open>NaN\<close>.
\<close>

fun add_features :: "jsnum list \<Rightarrow> jsnum list \<Rightarrow> jsnum list" where
  "add_features acc [] = acc"
| "add_features [] (v # vs) = NaN # add_features [] vs"
| "add_features (a # acc) (v # vs) = js_add a v # add_features acc vs"

text \<open>\<^verbatim>\<open>averageFeatures\<close>; \<open>None\<close>: the read of \<^verbatim>\<open>samples[0].features\<close> throws.\<close>

definition averageFeatures :: "sample list \<Rightarrow> jsnum list option" where
  "averageFeatures samples =
     (case samples of
        [] \<Rightarrow> None
      | s0 # _ \<Rightarrow>
          Some (map (\<lambda>sum. js_div sum (js_length samples))
                  (foldl add_features (replicate (length (s_features s0)) (Fin 0))
                         (map s_features samples))))"

text \<open>
  The labelling block of \<^verbatim>\<open>processWindow\<close>: the ensemble of model and thresholds when a
  model and normalization statistics are there, the thresholds alone otherwise.
  \<open>None\<close>: an exception, which the \<^verbatim>\<open>catch\<close> of \<^verbatim>\<open>processWindow\<close> swallows.
\<close>

definition labelWindow ::
  "detector \<Rightarrow> window_statistics \<Rightarrow> (label \<times> model_probs option \<times> detector) option" where
  "labelWindow d st =
     (let medianAngleRel = median st;
          nstats = (case normalizationStats d of
                      Some n \<Rightarrow> Some n
                    | None \<Rightarrow> featureStatsToNormalization d)
      in case (model d, nstats) of
           (Some m, Some n) \<Rightarrow>
             (case averageFeatures (currentWindow d) of
                None \<Rightarrow> None
              | Some avgFeatures \<Rightarrow>
                  (case predict m (normalizeFeatures avgFeatures n) of
                     None \<Rightarrow> None
                   | Some modelPrediction \<Rightarrow>
                       (let modelProbs =
                              \<lparr> prob_good = js_or_undef (js_property (probs modelPrediction) ''0'') (Fin 0),
                                prob_slouch = js_or_undef (js_property (probs modelPrediction) ''1'') (Fin 0) \<rparr>
                        in case thresholdClassification d medianAngleRel of
                             (thresholdLabel, d') \<Rightarrow>
                               if p_label modelPrediction = SLOUCH \<and> thresholdLabel = BAD
                               then Some (BAD, Some modelProbs, d')
                               else
                                 (let modelBadScore = js_mul (prob_slouch modelProbs) (MODEL_WEIGHT (config d));
                                      thresholdBadScore =
                                        js_mul (if thresholdLabel = BAD then Fin 1 else Fin 0)
                                               (THRESHOLD_WEIGHT (config d));
                                      combinedBadScore = js_add modelBadScore thresholdBadScore
                                  in if js_gt combinedBadScore (Fin 0.5) then Some (BAD, Some modelProbs, d')
                                     else if thresholdLabel = MILD then Some (MILD, Some modelProbs, d')
                                     else Some (GOOD, Some modelProbs, d')))))
         | _ \<Rightarrow>
             (case thresholdClassification d medianAngleRel of
                (l, d') \<Rightarrow> Some (l, None, d')))"

definition insufficientStatus :: "detector \<Rightarrow> window_status" where
  "insufficientStatus d =
     \<lparr> windowLabel = INSUFFICIENT,
       st_windowIndex = windowIndex d,
       validFrames = length (currentWindow d),
       avgAngle = None,
       avgAngleRel = None,
       medianAngleRel = None,
       stdAngleRel = None,
       modelProbabilities = None \<rparr>"

text \<open>The sum that \<^verbatim>\<open>processWindow\<close> stores in \<^verbatim>\<open>badPersistenceMs\<close>.\<close>

definition badPersistence :: "config \<Rightarrow> window_record list \<Rightarrow> jsnum" where
  "badPersistence c ws =
     foldl (\<lambda>sum w. if label w = BAD then js_add sum (SAMPLING_WINDOW_MS c) else sum) (Fin 0) ws"

text \<open>
  \<^verbatim>\<open>processWindow\<close>, run to its end as for a caller that awaits it (its one
  \<^verbatim>\<open>await\<close> is of a value that \<^verbatim>\<open>predict\<close> has already computed).
\<close>

definition processWindow :: "env \<Rightarrow> detector \<Rightarrow> detector \<times> event list" where
  "processWindow e d =
     (if js_lt (js_length (currentWindow d)) (MIN_VALID_FRAMES (config d))
      then (d, [StatusUpdate (insufficientStatus d)])
      else
        (case computeWindowStatistics (currentWindow d) of
           None \<Rightarrow> (d, [StatusUpdate (insufficientStatus d)])
         | Some st \<Rightarrow>
             (case labelWindow d st of
                None \<Rightarrow> (d, [])
              | Some (wl, modelProbs, d1) \<Rightarrow>
                  (let d2 = (if wl = GOOD \<and> absolute st \<noteq> None then updateAdaptiveBaseline st d1 else d1);
                       windowStatus =
                         \<lparr> windowLabel = wl,
                           st_windowIndex = windowIndex d2,
                           validFrames = length (currentWindow d2),
                           avgAngle = Some (case absolute st of Some ab \<Rightarrow> mean ab | None \<Rightarrow> mean st),
                           avgAngleRel = Some (mean st),
                           medianAngleRel = Some (median st),
                           stdAngleRel = Some (std st),
                           modelProbabilities = modelProbs \<rparr>;
                       pushed = windowHistory d2
                                @ [\<lparr> label = wl, timestamp = t_record e, status = windowStatus, stats = st \<rparr>];
                       history = (if js_gt (js_length pushed) (WINDOWS_HISTORY (config d2))
                                  then tl pushed else pushed);
                       d3 = d2\<lparr> windowHistory := history,
                                badPersistenceMs := badPersistence (config d2) history \<rparr>
                   in case checkForAlert e d3 of
                        (d4, alerts) \<Rightarrow> (d4, StatusUpdate windowStatus # alerts)))))"

subsection \<open>A single forced inference\<close>

record inference =
  i_label :: label
  i_confidence :: jsnum
  i_angle :: jsnum
  i_angleRel :: jsnum
  i_features :: "jsnum list"
  i_metadata :: result_metadata

datatype force_result =
    Thrown detector_error
  | ErrorResult string
  | Inferred inference

text \<open>
  \<^verbatim>\<open>forceInferOnce\<close>: \<open>polled\<close> is what \<^verbatim>\<open>getKeypoints()\<close> returns (\<open>None\<close> for a
  falsy or non-object value). The smoothing buffer of the pose utilities is threaded
  through both feature computations. A field read of an error \<^verbatim>\<open>metadata\<close> is
  \<^verbatim>\<open>undefined\<close>, which compares like \<^verbatim>\<open>NaN\<close>.
\<close>

definition forceInferOnce ::
  "keypoints option \<Rightarrow> detector \<Rightarrow> jsnum list \<Rightarrow> force_result \<times> detector \<times> jsnum list" where
  "forceInferOnce polled d angleHistory =
     (if \<not> getKeypoints_set d then (Thrown NotInitialized, d, angleHistory)
      else if polled = None then (ErrorResult ''No valid pose detected'', d, angleHistory)
      else
        (case hasValidPose polled (MIN_CONFIDENCE (config d)) angleHistory of
           (valid, h1) \<Rightarrow>
             if \<not> valid then (ErrorResult ''No valid pose detected'', d, h1)
             else
               (case computeFeaturesFromKeypoints polled (baselineAngle d) h1 of
                  (r, h2) \<Rightarrow>
                    (case features r of
                       None \<Rightarrow> (ErrorResult ''Feature extraction failed'', d, h2)
                     | Some fs \<Rightarrow>
                         (let rel = (case r_metadata r of FrameMeta m \<Rightarrow> spineAngleRel m | ErrorMeta _ \<Rightarrow> NaN);
                              ang = (case r_metadata r of FrameMeta m \<Rightarrow> spineAngle m | ErrorMeta _ \<Rightarrow> NaN)
                          in case thresholdClassification d rel of
                               (classification, d') \<Rightarrow>
                                 (Inferred \<lparr> i_label = classification,
                                             i_confidence = r_confidence r,
                                             i_angle = ang,
                                             i_angleRel = rel,
                                             i_features = fs,
                                             i_metadata = r_metadata r \<rparr>,
                                  d', h2))))))"

section \<open>Example inputs\<close>

text \<open>The \<^verbatim>\<open>mockKeypoints\<close> of the repository's test file, and the same without the nose.\<close>

definition mock_point :: "real \<Rightarrow> real \<Rightarrow> raw_point option" where
  "mock_point px py =
     Some (PointObject \<lparr> f_x = Some (Fin px), f_X = None, f_y = Some (Fin py), f_Y = None,
                          f_z = None, f_Z = None, f_confidence = Some (Fin 0.9), f_score = None,
                          f_visibility = None \<rparr>)"

definition mockKeypoints :: keypoints where
  "mockKeypoints = KeypointObject
     [(''left_shoulder'', mock_point 0.4 0.3),
      (''right_shoulder'', mock_point 0.6 0.3),
      (''left_hip'', mock_point 0.45 0.6),
      (''right_hip'', mock_point 0.55 0.6),
      (''nose'', mock_point 0.5 0.2)]"

definition mockKeypoints_no_nose :: keypoints where
  "mockKeypoints_no_nose = KeypointObject
     [(''left_shoulder'', mock_point 0.4 0.3),
      (''right_shoulder'', mock_point 0.6 0.3),
      (''left_hip'', mock_point 0.45 0.6),
      (''right_hip'', mock_point 0.55 0.6)]"

text \<open>What \<^verbatim>\<open>parseKeypoints\<close> makes of \<^verbatim>\<open>mockKeypoints\<close>, and the result of extraction.\<close>

definition mock_required :: required_points where
  "mock_required =
     \<lparr> left_shoulder = \<lparr> x = Fin 0.4, y = Fin 0.3, z = Fin 0, confidence = Fin 0.9 \<rparr>,
       right_shoulder = \<lparr> x = Fin 0.6, y = Fin 0.3, z = Fin 0, confidence = Fin 0.9 \<rparr>,
       left_hip = \<lparr> x = Fin 0.45, y = Fin 0.6, z = Fin 0, confidence = Fin 0.9 \<rparr>,
       right_hip = \<lparr> x = Fin 0.55, y = Fin 0.6, z = Fin 0, confidence = Fin 0.9 \<rparr>,
       nose = \<lparr> x = Fin 0.5, y = Fin 0.2, z = Fin 0, confidence = Fin 0.9 \<rparr> \<rparr>"

definition mock_metadata :: metadata where
  "mock_metadata = \<lparr> spineAngle = Fin 0, spineAngleRel = Fin 5, headForwardRatio = Fin 0,
       shoulderWidthRatio = Fin 0.8, shoulderSlope = Fin 0, frameQuality = Fin 0.9,
       baselineAngle_used = Some (Fin 5) \<rparr>"

definition mock_result :: feature_result where
  "mock_result = \<lparr> features = Some [Fin 0, Fin 5, Fin 0, Fin 0.8, Fin 0.9], r_confidence = Fin 0.9,
       r_metadata = FrameMeta mock_metadata \<rparr>"

text \<open>An accepted sample of spine angle \<open>a\<close> and relative angle \<open>r\<close>, of weight 0.9.\<close>

definition mock_sample :: "real \<Rightarrow> real \<Rightarrow> sample" where
  "mock_sample a r =
     \<lparr> s_features = [Fin a, Fin r, Fin 0, Fin 0.8, Fin 0.9],
       s_confidence = Fin 0.9,
       angle = Fin a,
       angleRel = Fin r,
       s_timestamp = Fin 0,
       s_metadata = \<lparr> spineAngle = Fin a, spineAngleRel = Fin r, headForwardRatio = Fin 0,
                      shoulderWidthRatio = Fin 0.8, shoulderSlope = Fin 0, frameQuality = Fin 0.9,
                      baselineAngle_used = Some (Fin 5) \<rparr>,
       weight = Fin 0.9 \<rparr>"

text \<open>The statistics of \<open>n\<close> equal values \<open>v\<close>.\<close>

definition flat_stats :: "real \<Rightarrow> nat \<Rightarrow> wstats" where
  "flat_stats v n = \<lparr> mean = Fin v, median = Fin v, std = Fin 0, p25 = Fin v, p75 = Fin v,
       trimmedMean = Fin v, count = n, min_value = Fin v, max_value = Fin v \<rparr>"

definition mock_window_stats :: "real \<Rightarrow> real \<Rightarrow> window_statistics" where
  "mock_window_stats a r = wstats.extend (flat_stats r 3) \<lparr> absolute = Some (flat_stats a 3) \<rparr>"

definition env0 :: env where
  "env0 = \<lparr> t_record = Fin 100000, t_check = Fin 100000, t_alert = Fin 100000, speechSynthesis = True \<rparr>"

text \<open>
  A detector after \<^verbatim>\<open>init\<close> without a trained model (threshold mode, baseline 5
  degrees), before \<^verbatim>\<open>startDetector\<close>.
\<close>

definition ready_detector :: detector where
  "ready_detector = new_PostureDetector\<lparr> getKeypoints_set := True, baselineAngle := Some (Fin 5) \<rparr>"

text \<open>
  A running detector whose first window holds three samples of relative angle 2, and
  the detector after that window has been closed.
\<close>

definition good_first_window :: detector where
  "good_first_window =
     ready_detector\<lparr> isRunning := True, detectionTimer := Some 1,
                     currentWindow := replicate 3 (mock_sample 7 2),
                     windowStartTime := Some (Fin 95000) \<rparr>"

definition after_good_window :: detector where
  "after_good_window = fst (processWindow env0 good_first_window)"

text \<open>
  A running detector with one bad window in its history, whose current window holds
  three samples of relative angle 15.
\<close>

definition bad_record :: window_record where
  "bad_record =
     \<lparr> label = BAD, timestamp = Fin 95000,
       status = \<lparr> windowLabel = BAD, st_windowIndex = 0, validFrames = 3,
                  avgAngle = Some (Fin 20), avgAngleRel = Some (Fin 15),
                  medianAngleRel = Some (Fin 15), stdAngleRel = Some (Fin 0),
                  modelProbabilities = None \<rparr>,
       stats = mock_window_stats 20 15 \<rparr>"

definition one_bad_window :: detector where
  "one_bad_window =
     ready_detector\<lparr> isRunning := True, detectionTimer := Some 1,
                     windowHistory := [bad_record],
                     currentWindow := replicate 3 (mock_sample 20 15),
                     windowStartTime := Some (Fin 95000), windowIndex := 1,
                     badPersistenceMs := Fin 5000, lastClassification := Some BAD \<rparr>"

definition alert0 :: alert_data where
  "alert0 = \<lparr> alert_label = BAD, message = VOICE_MESSAGE DEFAULT_CONFIG, alert_timestamp = Fin 100000 \<rparr>"

text \<open>
  A running detector with a trained model that gives every input the probabilities 0.1
  (good) and 0.9 (slouch), with normalization statistics of mean 0 and deviation 1, whose
  current window holds three samples of relative angle 8.
\<close>

definition slouch_model :: tf_model where
  "slouch_model = (\<lambda>fs. Some (Fin 0.1, Fin 0.9))"

definition unit_normalization :: normalization_stats where
  "unit_normalization = \<lparr> n_means = replicate 5 (Fin 0), n_stds = replicate 5 (Fin 1) \<rparr>"

definition with_model :: detector where
  "with_model =
     ready_detector\<lparr> model := Some slouch_model,
                     normalizationStats := Some unit_normalization,
                     isRunning := True, detectionTimer := Some 1,
                     currentWindow := replicate 3 (mock_sample 13 8),
                     windowStartTime := Some (Fin 95000) \<rparr>"

section \<open>Properties of the number operations\<close>

lemma js_lt_not_le: "js_lt a b \<Longrightarrow> \<not> js_le b a"
  by (cases a; cases b) auto

lemma js_gt_not_le: "js_gt a b \<Longrightarrow> \<not> js_le a b"
  by (simp add: js_gt_def js_lt_not_le)

lemma js_ge_not_lt: "js_ge a b \<Longrightarrow> \<not> js_lt a b"
  by (cases a; cases b) (auto simp: js_ge_def)

lemma js_ge_mono_nat: "js_ge (Fin (real m)) v \<Longrightarrow> m \<le> n \<Longrightarrow> js_ge (Fin (real n)) v"
  by (cases v) (auto simp: js_ge_def)

lemma not_lt_finite_ge: "\<not> js_lt a b \<Longrightarrow> js_isFinite a \<Longrightarrow> js_isFinite b \<Longrightarrow> js_le b a"
  by (cases a; cases b) auto

lemma not_gt_finite_le: "\<not> js_gt a b \<Longrightarrow> js_isFinite a \<Longrightarrow> js_isFinite b \<Longrightarrow> js_le a b"
  by (cases a; cases b) (auto simp: js_gt_def)

lemma sqrt_25th: "sqrt (1 / 25) = 1 / 5"
  by (rule real_sqrt_unique) (simp_all add: power2_eq_square)

lemma upt3: "[0..<3] = [0, 1, 2]"
  by (simp add: upt_conv_Cons numeral_3_eq_3)

lemma rep3: "replicate 3 a = [a, a, a]"
  by (simp add: numeral_3_eq_3)

section \<open>Properties of sorting, slicing and the percentile walk\<close>

lemma set_js_insert: "set (js_insert cmp a xs) = insert a (set xs)"
  by (induction xs) auto

lemma set_js_sort: "set (js_sort cmp xs) = set xs"
  unfolding js_sort_def by (induction xs) (auto simp: set_js_insert)

lemma percentile_walk_mem:
  "percentile_walk tw target acc es = Some v \<Longrightarrow> v \<in> e_value ` set es"
  by (induction es arbitrary: acc) (auto simp: Let_def split: if_splits)

lemma percentile_mem:
  "es \<noteq> [] \<Longrightarrow> percentile es tw target \<in> e_value ` set es"
  by (auto simp: percentile_def dest: percentile_walk_mem split: option.splits)

lemma js_slice_from_drop: "\<exists>n. js_slice_from k xs = drop n xs"
proof (cases k)
  case (Fin r)
  then show ?thesis by (auto simp: js_slice_from_def Let_def)
next
  case PInf
  then have "js_slice_from k xs = drop (length xs) xs" by (simp add: js_slice_from_def)
  then show ?thesis by blast
next
  case NInf
  then have "js_slice_from k xs = drop 0 xs" by (simp add: js_slice_from_def)
  then show ?thesis by blast
next
  case NaN
  then have "js_slice_from k xs = drop 0 xs" by (simp add: js_slice_from_def)
  then show ?thesis by blast
qed

lemma length_filter_drop_le: "length (filter P (drop n xs)) \<le> length (filter P xs)"
proof -
  have "length (filter P xs) = length (filter P (take n xs)) + length (filter P (drop n xs))"
    by (metis append_take_drop_id filter_append length_append)
  then show ?thesis by simp
qed

lemma last_two_of_drop:
  assumes "2 \<le> length (drop n xs)"
  shows "drop n xs ! (length (drop n xs) - 1) = xs ! (length xs - 1)"
    and "drop n xs ! (length (drop n xs) - 2) = xs ! (length xs - 2)"
  using assms by (simp_all add: add.commute)

section \<open>The median of a window is one of its accepted angles\<close>

lemma computeWeightedStats_median_mem:
  assumes "computeWeightedStats entries = Some ws"
  shows "median ws \<in> e_value ` set entries"
proof -
  let ?sorted = "js_sort (\<lambda>a b. js_sub (e_value a) (e_value b)) entries"
  from assms have ne: "?sorted \<noteq> []"
    by (auto simp: computeWeightedStats_def Let_def split: if_splits)
  from assms obtain tw where "median ws = percentile ?sorted tw (Fin 0.5)"
    by (auto simp: computeWeightedStats_def Let_def split: if_splits)
  with percentile_mem [OF ne] have "median ws \<in> e_value ` set ?sorted" by simp
  then show ?thesis by (simp add: set_js_sort)
qed

lemma computeWindowStatistics_median:
  assumes "computeWindowStatistics samples = Some st"
  shows "js_isFinite (median st) \<and> js_ge (median st) (Fin 0)"
proof -
  let ?rel = "map (\<lambda>s. \<lparr> e_value = spineAngleRel (s_metadata s), e_weight = js_max (Fin 0.001) (weight s) \<rparr>)
                (filter (\<lambda>s. js_isFinite (spineAngleRel (s_metadata s))
                              \<and> js_ge (spineAngleRel (s_metadata s)) (Fin 0)) samples)"
  from assms obtain rs where rs: "computeWeightedStats ?rel = Some rs" and m: "median st = median rs"
    by (auto simp: computeWindowStatistics_def Let_def wstats.defs split: if_splits option.splits)
  from computeWeightedStats_median_mem [OF rs] m
  have "median st \<in> e_value ` set ?rel" by simp
  then show ?thesis by auto
qed

lemma computeWindowStatistics_absolute_median:
  assumes "computeWindowStatistics samples = Some st" and "absolute st = Some ab"
  shows "js_isFinite (median ab)"
proof -
  let ?abs = "map (\<lambda>s. \<lparr> e_value = spineAngle (s_metadata s), e_weight = js_max (Fin 0.001) (weight s) \<rparr>)
                (filter (\<lambda>s. js_isFinite (spineAngle (s_metadata s))
                              \<and> js_ge (spineAngle (s_metadata s)) (Fin 0)) samples)"
  from assms have "computeWeightedStats ?abs = Some ab"
    by (auto simp: computeWindowStatistics_def Let_def wstats.defs split: if_splits option.splits)
  from computeWeightedStats_median_mem [OF this]
  have "median ab \<in> e_value ` set ?abs" .
  then show ?thesis by auto
qed

section \<open>What the operations leave unchanged\<close>

lemma thresholdClassification_frame:
  assumes "thresholdClassification d a = (l, d')"
  shows "d' = d\<lparr>lastClassification := lastClassification d'\<rparr>"
  using assms by (auto simp: thresholdClassification_def Let_def split: if_splits)

lemma labelWindow_frame:
  assumes "labelWindow d st = Some (wl, mp, d')"
  shows "d' = d\<lparr>lastClassification := lastClassification d'\<rparr>"
proof -
  from assms obtain l where "thresholdClassification d (median st) = (l, d')"
    by (auto simp: labelWindow_def Let_def split: option.splits prod.splits if_splits)
  then show ?thesis by (rule thresholdClassification_frame)
qed

lemma labelWindow_fields:
  assumes "labelWindow d st = Some (wl, mp, d')"
  shows "config d' = config d" and "lastAlertTime d' = lastAlertTime d"
    and "isMuted d' = isMuted d" and "snoozeUntil d' = snoozeUntil d"
    and "windowHistory d' = windowHistory d"
  using arg_cong [OF labelWindow_frame [OF assms], of config]
    arg_cong [OF labelWindow_frame [OF assms], of lastAlertTime]
    arg_cong [OF labelWindow_frame [OF assms], of isMuted]
    arg_cong [OF labelWindow_frame [OF assms], of snoozeUntil]
    arg_cong [OF labelWindow_frame [OF assms], of windowHistory]
  by simp_all

lemma updateAdaptiveBaseline_fields:
  "config (updateAdaptiveBaseline st d) = config d"
  "lastAlertTime (updateAdaptiveBaseline st d) = lastAlertTime d"
  "isMuted (updateAdaptiveBaseline st d) = isMuted d"
  "snoozeUntil (updateAdaptiveBaseline st d) = snoozeUntil d"
  "windowHistory (updateAdaptiveBaseline st d) = windowHistory d"
  "lastClassification (updateAdaptiveBaseline st d) = lastClassification d"
  by (simp_all add: updateAdaptiveBaseline_def Let_def split: option.splits)

section \<open>When \<^verbatim>\<open>checkForAlert\<close> fires\<close>

lemma checkForAlert_fired:
  assumes "checkForAlert e d = (d', evs)" and "AlertFired a \<in> set evs"
  shows "d' = d\<lparr>lastAlertTime := t_check e\<rparr>"
    and "2 \<le> length (windowHistory d)"
    and "(label (windowHistory d ! (length (windowHistory d) - 1)) = BAD
          \<and> label (windowHistory d ! (length (windowHistory d) - 2)) = BAD)
         \<or> js_ge (Fin (real (length (filter (\<lambda>w. label w = BAD) (windowHistory d)))))
                  (js_or (WINDOWS_VOTES_REQUIRED (config d)) (Fin 2))"
    and "js_ge (badPersistenceMs d) (js_or (PERSIST_MS (config d)) (Fin 8000))"
    and "js_ge (js_sub (t_check e) (lastAlertTime d)) (js_or (ALERT_COOLDOWN_MS (config d)) (Fin 30000))"
    and "\<not> isMuted d" and "js_gt (t_check e) (snoozeUntil d)"
proof -
  let ?recent = "js_slice_from (js_or (js_neg (WINDOWS_HISTORY (config d))) (Fin 3)) (windowHistory d)"
  obtain n where n: "?recent = drop n (windowHistory d)"
    using js_slice_from_drop by blast
  from assms have len: "\<not> length (windowHistory d) < 2"
    by (auto simp: checkForAlert_def Let_def split: if_splits)
  with assms have fired:
    "((2 \<le> length ?recent
        \<and> label (?recent ! (length ?recent - 1)) = BAD
        \<and> label (?recent ! (length ?recent - 2)) = BAD)
      \<or> js_ge (Fin (real (length (filter (\<lambda>w. label w = BAD) ?recent))))
               (js_or (WINDOWS_VOTES_REQUIRED (config d)) (Fin 2)))
     \<and> js_ge (badPersistenceMs d) (js_or (PERSIST_MS (config d)) (Fin 8000))
     \<and> js_ge (js_sub (t_check e) (lastAlertTime d)) (js_or (ALERT_COOLDOWN_MS (config d)) (Fin 30000))
     \<and> \<not> isMuted d \<and> js_gt (t_check e) (snoozeUntil d)"
    and d': "d' = d\<lparr>lastAlertTime := t_check e\<rparr>"
    by (auto simp: checkForAlert_def Let_def split: if_splits)
  show "d' = d\<lparr>lastAlertTime := t_check e\<rparr>" by (rule d')
  show "2 \<le> length (windowHistory d)" using len by simp
  show "js_ge (badPersistenceMs d) (js_or (PERSIST_MS (config d)) (Fin 8000))"
    and "js_ge (js_sub (t_check e) (lastAlertTime d)) (js_or (ALERT_COOLDOWN_MS (config d)) (Fin 30000))"
    and "\<not> isMuted d" and "js_gt (t_check e) (snoozeUntil d)"
    using fired by simp_all
  from fired show "(label (windowHistory d ! (length (windowHistory d) - 1)) = BAD
          \<and> label (windowHistory d ! (length (windowHistory d) - 2)) = BAD)
         \<or> js_ge (Fin (real (length (filter (\<lambda>w. label w = BAD) (windowHistory d)))))
                  (js_or (WINDOWS_VOTES_REQUIRED (config d)) (Fin 2))"
    unfolding n
    using last_two_of_drop [of n "windowHistory d"]
      js_ge_mono_nat [OF _ length_filter_drop_le [of "\<lambda>w. label w = BAD" n "windowHistory d"]]
    by metis
qed

section \<open>Feature extraction accepts only well-formed frames\<close>

lemma extract_features_accepts:
  assumes "extract_features points baseline angleHistory = (Inr r, history)"
  shows "\<exists>m fs. r_metadata r = FrameMeta m \<and> features r = Some fs
         \<and> fs = [spineAngle m, spineAngleRel m, headForwardRatio m, shoulderWidthRatio m, r_confidence r]
         \<and> list_all (\<lambda>f. js_isFinite f \<and> \<not> js_isNaN f) fs
         \<and> js_le (Fin 0) (spineAngle m) \<and> js_le (spineAngle m) (Fin 70)
         \<and> js_ge (r_confidence r) (MIN_CONFIDENCE DEFAULT_CONFIG)"
proof -
  obtain spine h where sp: "computeSpineAngle points angleHistory = (spine, h)"
    by (cases "computeSpineAngle points angleHistory")
  let ?avg = "js_div (foldl js_add (Fin 0) (map point_confidence
            [left_shoulder points, right_shoulder points, left_hip points, right_hip points, nose points]))
            (js_length (map point_confidence
            [left_shoulder points, right_shoulder points, left_hip points, right_hip points, nose points]))"
  let ?rel = "js_abs (js_sub spine (case baseline of Some b \<Rightarrow> b | None \<Rightarrow> Fin 0))"
  let ?fs = "[spine, ?rel, computeHeadForwardRatio points, computeShoulderWidthRatio points, ?avg]"
  from assms sp have c: "\<not> js_lt ?avg (MIN_CONFIDENCE DEFAULT_CONFIG)"
    and a: "\<not> js_lt spine (MIN_ANGLE DEFAULT_CONFIG)" "\<not> js_gt spine (MAX_ANGLE DEFAULT_CONFIG)"
    and f: "\<not> list_ex (\<lambda>f. \<not> js_isFinite f \<or> js_isNaN f) ?fs"
    and r: "r = \<lparr> features = Some ?fs, r_confidence = ?avg,
                  r_metadata = FrameMeta
                    \<lparr> spineAngle = spine, spineAngleRel = ?rel,
                      headForwardRatio = computeHeadForwardRatio points,
                      shoulderWidthRatio = computeShoulderWidthRatio points,
                      shoulderSlope = computeShoulderSlope points,
                      frameQuality = computeFrameQuality ?avg (computeShoulderSlope points),
                      baselineAngle_used = baseline \<rparr> \<rparr>"
    by (auto simp: extract_features_def Let_def split: if_splits)
  from f have fin: "js_isFinite spine" "js_isFinite ?avg"
    and all: "list_all (\<lambda>f. js_isFinite f \<and> \<not> js_isNaN f) ?fs"
    by simp_all
  from a fin(1) have "js_le (Fin 0) spine" "js_le spine (Fin 70)"
    by (auto simp: DEFAULT_CONFIG_def intro: not_lt_finite_ge not_gt_finite_le)
  moreover from c fin(2) have "js_ge ?avg (MIN_CONFIDENCE DEFAULT_CONFIG)"
    by (auto simp: DEFAULT_CONFIG_def js_ge_def intro: not_lt_finite_ge)
  ultimately show ?thesis using all by (simp add: r)
qed

section \<open>The example inputs, evaluated\<close>

lemma parse_mock:
  "parseKeypoints mockKeypoints ''left_shoulder'' = Some (left_shoulder mock_required)"
  "parseKeypoints mockKeypoints ''right_shoulder'' = Some (right_shoulder mock_required)"
  "parseKeypoints mockKeypoints ''left_hip'' = Some (left_hip mock_required)"
  "parseKeypoints mockKeypoints ''right_hip'' = Some (right_hip mock_required)"
  "parseKeypoints mockKeypoints ''nose'' = Some (nose mock_required)"
  by (simp_all add: parseKeypoints_def mockKeypoints_def mock_point_def parsePoint_def
      mock_required_def js_or_def)

lemma mock_required_eta:
  "\<lparr> left_shoulder = left_shoulder mock_required, right_shoulder = right_shoulder mock_required,
     left_hip = left_hip mock_required, right_hip = right_hip mock_required,
     nose = nose mock_required \<rparr> = mock_required"
  by simp

lemma spine_mock_empty: "computeSpineAngle mock_required [] = (Fin 0, [Fin 0])"
  by (simp add: computeSpineAngle_def mock_required_def midpoint_def js_sub_def eps_def
      to_degrees_def atan2_real_def MAX_HISTORY_def js_sort_def js_min_def Let_def)

lemma spine_mock_one: "computeSpineAngle mock_required [Fin 0] = (Fin 0, [Fin 0, Fin 0])"
  by (simp add: computeSpineAngle_def mock_required_def midpoint_def js_sub_def eps_def
      to_degrees_def atan2_real_def MAX_HISTORY_def js_sort_def js_min_def js_gt_def Let_def)

lemma head_mock: "computeHeadForwardRatio mock_required = Fin 0"
  by (simp add: computeHeadForwardRatio_def mock_required_def midpoint_def js_sub_def eps_def
      js_min_def js_gt_def Let_def sqrt_25th)

lemma width_mock: "computeShoulderWidthRatio mock_required = Fin 0.8"
  by (simp add: computeShoulderWidthRatio_def mock_required_def js_sub_def
      js_min_def Let_def sqrt_25th)

lemma slope_mock: "computeShoulderSlope mock_required = Fin 0"
  by (simp add: computeShoulderSlope_def mock_required_def js_sub_def eps_def
      to_degrees_def atan2_real_def Let_def)

lemma quality_mock: "computeFrameQuality (Fin 0.9) (Fin 0) = Fin 0.9"
  by (simp add: computeFrameQuality_def DEFAULT_CONFIG_def js_sub_def js_min_def js_max_def Let_def)

lemma avg_mock:
  "js_div (foldl js_add (Fin 0) (map point_confidence
            [left_shoulder mock_required, right_shoulder mock_required, left_hip mock_required,
             right_hip mock_required, nose mock_required]))
          (js_length (map point_confidence
            [left_shoulder mock_required, right_shoulder mock_required, left_hip mock_required,
             right_hip mock_required, nose mock_required])) = Fin 0.9"
  by (simp add: mock_required_def point_confidence_def js_or_def js_length_def)

lemma extract_mock_empty:
  "extract_features mock_required (Some (Fin 5)) [] = (Inr mock_result, [Fin 0])"
  unfolding extract_features_def Let_def avg_mock spine_mock_empty head_mock width_mock slope_mock
    quality_mock
  by (simp add: DEFAULT_CONFIG_def js_gt_def js_sub_def mock_result_def mock_metadata_def)

lemma extract_mock_one:
  "extract_features mock_required (Some (Fin 5)) [Fin 0] = (Inr mock_result, [Fin 0, Fin 0])"
  unfolding extract_features_def Let_def avg_mock spine_mock_one head_mock width_mock slope_mock
    quality_mock
  by (simp add: DEFAULT_CONFIG_def js_gt_def js_sub_def mock_result_def mock_metadata_def)

lemma compute_mock_empty:
  "computeFeaturesFromKeypoints (Some mockKeypoints) (Some (Fin 5)) [] = (mock_result, [Fin 0])"
  by (simp add: computeFeaturesFromKeypoints_def try_computeFeatures_def parse_mock
      extract_mock_empty mock_required_eta)

lemma compute_mock_one:
  "computeFeaturesFromKeypoints (Some mockKeypoints) (Some (Fin 5)) [Fin 0] = (mock_result, [Fin 0, Fin 0])"
  by (simp add: computeFeaturesFromKeypoints_def try_computeFeatures_def parse_mock
      extract_mock_one mock_required_eta)

lemma weighted_stats_flat:
  "computeWeightedStats (replicate 3 \<lparr> e_value = Fin v, e_weight = Fin 0.9 \<rparr>) = Some (flat_stats v 3)"
  by (simp add: computeWeightedStats_def js_sort_def js_sub_def js_gt_def js_or_def js_ge_def
      js_length_def js_max_def percentile_def flat_stats_def rep3 upt3 Let_def)

lemma upt5: "[0..<5] = [0, 1, 2, 3, 4]"
  by (simp add: upt_conv_Cons eval_nat_numeral)

lemma rep5: "replicate 5 a = [a, a, a, a, a]"
  by (simp add: eval_nat_numeral)

lemma stats_mock:
  assumes "0 \<le> a" and "0 \<le> r"
  shows "computeWindowStatistics (replicate 3 (mock_sample a r)) = Some (mock_window_stats a r)"
proof -
  have rel: "map (\<lambda>s. \<lparr> e_value = spineAngleRel (s_metadata s), e_weight = js_max (Fin 0.001) (weight s) \<rparr>)
                (filter (\<lambda>s. js_isFinite (spineAngleRel (s_metadata s))
                              \<and> js_ge (spineAngleRel (s_metadata s)) (Fin 0)) (replicate 3 (mock_sample a r)))
             = replicate 3 \<lparr> e_value = Fin r, e_weight = Fin 0.9 \<rparr>"
    using assms by (simp add: rep3 mock_sample_def js_ge_def js_max_def)
  have ab: "map (\<lambda>s. \<lparr> e_value = spineAngle (s_metadata s), e_weight = js_max (Fin 0.001) (weight s) \<rparr>)
                (filter (\<lambda>s. js_isFinite (spineAngle (s_metadata s))
                              \<and> js_ge (spineAngle (s_metadata s)) (Fin 0)) (replicate 3 (mock_sample a r)))
             = replicate 3 \<lparr> e_value = Fin a, e_weight = Fin 0.9 \<rparr>"
    using assms by (simp add: rep3 mock_sample_def js_ge_def js_max_def)
  show ?thesis
    unfolding computeWindowStatistics_def Let_def rel ab weighted_stats_flat
    by (simp add: mock_window_stats_def rep3)
qed

lemma label_good_first:
  "labelWindow good_first_window (mock_window_stats 7 2)
     = Some (GOOD, None, good_first_window\<lparr>lastClassification := Some GOOD\<rparr>)"
  by (simp add: labelWindow_def good_first_window_def ready_detector_def new_PostureDetector_def
      thresholdClassification_def goodThreshold_def mildThreshold_def badThreshold_def getThresholds_def
      DEFAULT_CONFIG_def js_or_def mock_window_stats_def flat_stats_def wstats.defs Let_def)

text \<open>
  Closing the first, good window sets the personalized thresholds and the baseline and
  leaves the hysteresis state at \<^verbatim>\<open>good\<close>.
\<close>

lemma after_good_window_fields:
  "personalizedThresholds after_good_window = Some \<lparr> good = Fin 2.2, mild = Fin 5.5, bad = Fin 10 \<rparr>"
  "lastClassification after_good_window = Some GOOD"
  "baselineAngle after_good_window = Some (Fin 5.4)"
  "map label (windowHistory after_good_window) = [GOOD]"
proof -
  have cw: "currentWindow good_first_window = replicate 3 (mock_sample 7 2)"
    by (simp add: good_first_window_def)
  have st: "computeWindowStatistics (currentWindow good_first_window) = Some (mock_window_stats 7 2)"
    unfolding cw by (rule stats_mock) simp_all
  have suff: "\<not> js_lt (js_length (currentWindow good_first_window)) (MIN_VALID_FRAMES (config good_first_window))"
    by (simp add: good_first_window_def ready_detector_def new_PostureDetector_def DEFAULT_CONFIG_def
        js_length_def)
  show "personalizedThresholds after_good_window = Some \<lparr> good = Fin 2.2, mild = Fin 5.5, bad = Fin 10 \<rparr>"
    "lastClassification after_good_window = Some GOOD"
    "baselineAngle after_good_window = Some (Fin 5.4)"
    "map label (windowHistory after_good_window) = [GOOD]"
    unfolding after_good_window_def
    apply (simp_all add: processWindow_def st label_good_first suff Let_def)
    apply (simp_all add: checkForAlert_def updateAdaptiveBaseline_def mock_window_stats_def flat_stats_def
        wstats.defs good_first_window_def ready_detector_def new_PostureDetector_def DEFAULT_CONFIG_def
        js_min_def js_max_def js_sub_def js_gt_def js_length_def badPersistence_def Let_def)
    done
qed

lemma label_one_bad:
  "labelWindow one_bad_window (mock_window_stats 20 15) = Some (BAD, None, one_bad_window)"
  by (simp add: labelWindow_def one_bad_window_def ready_detector_def new_PostureDetector_def
      thresholdClassification_def goodThreshold_def mildThreshold_def badThreshold_def getThresholds_def
      DEFAULT_CONFIG_def js_or_def mock_window_stats_def flat_stats_def wstats.defs Let_def)

lemma alert_fires_example:
  "AlertFired alert0 \<in> set (snd (processWindow env0 one_bad_window))"
proof -
  have cw: "currentWindow one_bad_window = replicate 3 (mock_sample 20 15)"
    by (simp add: one_bad_window_def)
  have st: "computeWindowStatistics (currentWindow one_bad_window) = Some (mock_window_stats 20 15)"
    unfolding cw by (rule stats_mock) simp_all
  have suff: "\<not> js_lt (js_length (currentWindow one_bad_window)) (MIN_VALID_FRAMES (config one_bad_window))"
    by (simp add: one_bad_window_def ready_detector_def new_PostureDetector_def DEFAULT_CONFIG_def
        js_length_def)
  show ?thesis
    apply (simp add: processWindow_def st label_one_bad suff Let_def)
    apply (simp add: one_bad_window_def ready_detector_def new_PostureDetector_def DEFAULT_CONFIG_def
        checkForAlert_def triggerAlert_def js_slice_from_def js_trunc_def js_or_def js_gt_def
        js_ge_def js_sub_def js_length_def badPersistence_def bad_record_def env0_def alert0_def
        mock_window_stats_def wstats.defs Let_def)
    done
qed

lemma average_with_model:
  "averageFeatures (currentWindow with_model) = Some [Fin 13, Fin 8, Fin 0, Fin 0.8, Fin 0.9]"
  by (simp add: averageFeatures_def with_model_def ready_detector_def new_PostureDetector_def
      rep3 rep5 mock_sample_def js_length_def)

lemma normalize_unit:
  "normalizeFeatures [Fin 13, Fin 8, Fin 0, Fin 0.8, Fin 0.9] unit_normalization
     = [Fin 13, Fin 8, Fin 0, Fin 0.8, Fin 0.9]"
  by (simp add: normalizeFeatures_def unit_normalization_def upt5 rep5 js_index_def js_or_def js_sub_def)

lemma predict_slouch:
  "predict slouch_model [Fin 13, Fin 8, Fin 0, Fin 0.8, Fin 0.9]
     = Some \<lparr> p_label = SLOUCH, probs = [(''good'', Fin 0.1), (''bad'', Fin 0.9)], p_confidence = Fin 0.9 \<rparr>"
  by (simp add: predict_def slouch_model_def DEFAULT_CONFIG_def label_name_def js_gt_def js_max_def)

lemma classify_with_model:
  "thresholdClassification with_model (Fin 8) = (MILD, with_model\<lparr>lastClassification := Some MILD\<rparr>)"
  by (simp add: with_model_def ready_detector_def new_PostureDetector_def
      thresholdClassification_def goodThreshold_def mildThreshold_def badThreshold_def getThresholds_def
      DEFAULT_CONFIG_def js_or_def Let_def)

lemma label_with_model:
  "labelWindow with_model (mock_window_stats 13 8)
      = Some (MILD, Some \<lparr> prob_good = Fin 0, prob_slouch = Fin 0 \<rparr>,
              with_model\<lparr>lastClassification := Some MILD\<rparr>)"
proof -
  have md: "model with_model = Some slouch_model" "normalizationStats with_model = Some unit_normalization"
    "median (mock_window_stats 13 8) = Fin 8"
    "MODEL_WEIGHT (config with_model) = Fin 0.7" "THRESHOLD_WEIGHT (config with_model) = Fin 0.3"
    by (simp_all add: with_model_def ready_detector_def new_PostureDetector_def DEFAULT_CONFIG_def
        mock_window_stats_def flat_stats_def wstats.defs)
  show ?thesis
    unfolding labelWindow_def Let_def md
    apply (simp only: option.case prod.case average_with_model normalize_unit predict_slouch
        classify_with_model)
    apply (simp add: js_property_def js_gt_def)
    done
qed

lemma window_with_model:
  "snd (processWindow env0 with_model)
     = [StatusUpdate \<lparr> windowLabel = MILD, st_windowIndex = 0, validFrames = 3,
                       avgAngle = Some (Fin 13), avgAngleRel = Some (Fin 8),
                       medianAngleRel = Some (Fin 8), stdAngleRel = Some (Fin 0),
                       modelProbabilities = Some \<lparr> prob_good = Fin 0, prob_slouch = Fin 0 \<rparr> \<rparr>]"
proof -
  have cw: "currentWindow with_model = replicate 3 (mock_sample 13 8)"
    by (simp add: with_model_def)
  have st: "computeWindowStatistics (currentWindow with_model) = Some (mock_window_stats 13 8)"
    unfolding cw by (rule stats_mock) simp_all
  have suff: "\<not> js_lt (js_length (currentWindow with_model)) (MIN_VALID_FRAMES (config with_model))"
    by (simp add: with_model_def ready_detector_def new_PostureDetector_def DEFAULT_CONFIG_def
        js_length_def)
  show ?thesis
    apply (simp add: processWindow_def st label_with_model suff Let_def)
    apply (simp add: with_model_def ready_detector_def new_PostureDetector_def DEFAULT_CONFIG_def
        checkForAlert_def js_gt_def js_length_def mock_window_stats_def flat_stats_def wstats.defs Let_def)
    done
qed

lemma hasValidPose_mock:
  "hasValidPose (Some mockKeypoints) (MIN_CONFIDENCE (config ready_detector)) [] = (True, [Fin 0])"
proof -
  have b: "BASELINE_ANGLE DEFAULT_CONFIG = Fin 5" by (simp add: DEFAULT_CONFIG_def)
  show ?thesis
    unfolding hasValidPose_def b compute_mock_empty
    by (simp add: mock_result_def ready_detector_def new_PostureDetector_def DEFAULT_CONFIG_def js_ge_def)
qed

lemma forceInferOnce_mock:
  "forceInferOnce (Some mockKeypoints) ready_detector []
     = (Inferred \<lparr> i_label = GOOD, i_confidence = Fin 0.9, i_angle = Fin 0, i_angleRel = Fin 5,
                   i_features = [Fin 0, Fin 5, Fin 0, Fin 0.8, Fin 0.9],
                   i_metadata = FrameMeta mock_metadata \<rparr>,
        ready_detector\<lparr>lastClassification := Some GOOD\<rparr>, [Fin 0, Fin 0])"
proof -
  have b: "baselineAngle ready_detector = Some (Fin 5)" "getKeypoints_set ready_detector"
    by (simp_all add: ready_detector_def)
  have tc: "thresholdClassification ready_detector (Fin 5)
              = (GOOD, ready_detector\<lparr>lastClassification := Some GOOD\<rparr>)"
    by (simp add: ready_detector_def new_PostureDetector_def
      thresholdClassification_def goodThreshold_def getThresholds_def
      DEFAULT_CONFIG_def js_or_def Let_def)
  show ?thesis
    by (simp add: forceInferOnce_def hasValidPose_mock b compute_mock_one tc
        mock_result_def mock_metadata_def Let_def)
qed

section \<open>The ensemble never sees the model's probabilities\<close>

text \<open>
  \<^verbatim>\<open>processWindow\<close> reads the properties \<^verbatim>\<open>0\<close> and \<^verbatim>\<open>1\<close> of the \<^verbatim>\<open>probs\<close> object, which
  \<^verbatim>\<open>predict\<close> builds with the property names \<^verbatim>\<open>good\<close> and \<^verbatim>\<open>bad\<close>: both reads are
  \<^verbatim>\<open>undefined\<close>, and both probabilities the ensemble works with are 0.
\<close>

lemma labelWindow_model_probs:
  assumes "labelWindow d st = Some (wl, Some mp, d')"
  shows "mp = \<lparr> prob_good = Fin 0, prob_slouch = Fin 0 \<rparr>"
  using assms
  by (auto simp: labelWindow_def Let_def predict_def js_property_def label_name_def
      split: option.splits prod.splits if_splits)

section \<open>Hysteresis of the threshold classifier\<close>

text \<open>
  C5. Once the threshold classifier has returned \<^verbatim>\<open>good\<close>, its hysteresis state is
  \<^verbatim>\<open>good\<close>; in any later detector state with that hysteresis state (the thresholds
  may have been re-derived in between), an angle between the mild cutoff and the mild
  cutoff plus the margin of 1.5 degrees is classified \<^verbatim>\<open>good\<close>, not \<^verbatim>\<open>mild\<close>.
\<close>

theorem good_stays_good_within_hysteresis:
  assumes "thresholdClassification d a = (GOOD, d')"
      and "lastClassification d2 = lastClassification d'"
      and "js_le (mildThreshold d2) a2"
      and "js_le a2 (js_add (mildThreshold d2) hysteresis)"
  shows "fst (thresholdClassification d2 a2) = GOOD"
proof -
  have "lastClassification d' = Some GOOD"
    using assms(1) by (auto simp: thresholdClassification_def Let_def split: if_splits)
  with assms(2) have "lastClassification d2 = Some GOOD" by simp
  with assms(4) show ?thesis
    by (simp add: thresholdClassification_def)
qed

theorem good_stays_good_within_hysteresis_witness:
  "thresholdClassification new_PostureDetector (Fin 3)
     = (GOOD, new_PostureDetector\<lparr>lastClassification := Some GOOD\<rparr>)
   \<and> js_le (mildThreshold (new_PostureDetector\<lparr>lastClassification := Some GOOD\<rparr>)) (Fin 11)
   \<and> js_le (Fin 11) (js_add (mildThreshold (new_PostureDetector\<lparr>lastClassification := Some GOOD\<rparr>)) hysteresis)
   \<and> fst (thresholdClassification (new_PostureDetector\<lparr>lastClassification := Some GOOD\<rparr>) (Fin 11)) = GOOD"
proof -
  let ?d = "new_PostureDetector\<lparr>lastClassification := Some GOOD\<rparr>"
  have 1: "thresholdClassification new_PostureDetector (Fin 3) = (GOOD, ?d)"
    by (simp add: thresholdClassification_def new_PostureDetector_def goodThreshold_def
        getThresholds_def DEFAULT_CONFIG_def js_or_def)
  have m: "mildThreshold ?d = Fin 10"
    by (simp add: mildThreshold_def new_PostureDetector_def getThresholds_def DEFAULT_CONFIG_def js_or_def)
  have 2: "js_le (mildThreshold ?d) (Fin 11)" by (simp add: m)
  have 3: "js_le (Fin 11) (js_add (mildThreshold ?d) hysteresis)" by (simp add: m hysteresis_def)
  from good_stays_good_within_hysteresis [OF 1 refl 2 3] 1 2 3 show ?thesis by simp
qed

text \<open>
  C4. The classifier can return \<^verbatim>\<open>mild\<close> without recording it: from the hysteresis
  state \<^verbatim>\<open>good\<close> the branch that returns \<^verbatim>\<open>mild\<close> leaves \<^verbatim>\<open>lastClassification\<close> at
  \<^verbatim>\<open>good\<close>. In the detector after a first good window of median 2 degrees (cutoffs 2.2,
  5.5 and 10), an angle of 8 is classified \<^verbatim>\<open>mild\<close> and the state is unchanged; the
  next angle, 6, lies above the good cutoff and below the bad cutoff and is classified
  \<^verbatim>\<open>good\<close>, where the claim has \<^verbatim>\<open>mild\<close>.
\<close>

theorem mild_from_good_then_good:
  "thresholdClassification after_good_window (Fin 8) = (MILD, after_good_window)
   \<and> js_lt (goodThreshold after_good_window) (Fin 6)
   \<and> js_le (Fin 6) (badThreshold after_good_window)
   \<and> fst (thresholdClassification after_good_window (Fin 6)) = GOOD"
  by (simp add: thresholdClassification_def after_good_window_fields
      goodThreshold_def mildThreshold_def badThreshold_def getThresholds_def js_or_def hysteresis_def
      DEFAULT_CONFIG_def)

text \<open>
  With the hysteresis state at \<^verbatim>\<open>mild\<close> the classifier does what C4 describes: above
  the good cutoff and up to the bad cutoff it returns \<^verbatim>\<open>mild\<close>, and above the bad cutoff
  (when the good cutoff does not exceed it) it returns \<^verbatim>\<open>bad\<close>.
\<close>

lemma classification_in_state_mild:
  assumes "lastClassification d = Some MILD"
  shows "js_lt (goodThreshold d) a \<Longrightarrow> js_le a (badThreshold d)
           \<Longrightarrow> thresholdClassification d a = (MILD, d)"
    and "js_gt a (badThreshold d) \<Longrightarrow> js_le (goodThreshold d) (badThreshold d)
           \<Longrightarrow> fst (thresholdClassification d a) = BAD"
proof -
  show "js_lt (goodThreshold d) a \<Longrightarrow> js_le a (badThreshold d)
           \<Longrightarrow> thresholdClassification d a = (MILD, d)"
    using assms by (simp add: thresholdClassification_def js_lt_not_le)
  show "js_gt a (badThreshold d) \<Longrightarrow> js_le (goodThreshold d) (badThreshold d)
           \<Longrightarrow> fst (thresholdClassification d a) = BAD"
    using assms
    by (cases a; cases "goodThreshold d"; cases "badThreshold d")
       (auto simp: thresholdClassification_def js_gt_def)
qed

section \<open>Stopping the detector\<close>

text \<open>
  C9. \<^verbatim>\<open>stopDetector\<close> has no failing branch. Called on the detector a first call
  leaves, it changes nothing and calls no callback, and \<^verbatim>\<open>getStatus\<close> then reports
  \<^verbatim>\<open>running: false\<close>; the same holds of the module's exported functions, with or
  without a detector instance.
\<close>

theorem stop_twice:
  "stopDetector (fst (stopDetector d)) = (fst (stopDetector d), [])
   \<and> running (getStatus now (fst (stopDetector (fst (stopDetector d))))) = False
   \<and> stopDetector_export (fst (stopDetector_export inst)) = (fst (stopDetector_export inst), [])
   \<and> status_running (getStatus_export now (fst (stopDetector_export (fst (stopDetector_export inst))))) = False"
  by (cases inst)
     (simp_all add: stopDetector_def getStatus_def stopDetector_export_def getStatus_export_def
       status_running_def)

section \<open>Windows with too few frames\<close>

text \<open>
  C3, as the code has it. A window that closes with fewer than \<^verbatim>\<open>MIN_VALID_FRAMES\<close>
  accepted samples is reported through \<^verbatim>\<open>onUpdate\<close> with label \<^verbatim>\<open>insufficient\<close> and no
  statistics, and \<^verbatim>\<open>processWindow\<close> returns there: the detector is unchanged, so the
  window is not recorded in the history, and no alert check runs.
\<close>

theorem insufficient_window_not_recorded:
  assumes "js_lt (js_length (currentWindow d)) (MIN_VALID_FRAMES (config d))"
  shows "processWindow e d = (d, [StatusUpdate (insufficientStatus d)])
         \<and> windowLabel (insufficientStatus d) = INSUFFICIENT
         \<and> avgAngle (insufficientStatus d) = None
         \<and> avgAngleRel (insufficientStatus d) = None
         \<and> medianAngleRel (insufficientStatus d) = None
         \<and> stdAngleRel (insufficientStatus d) = None
         \<and> modelProbabilities (insufficientStatus d) = None"
  using assms by (simp add: processWindow_def insufficientStatus_def)

theorem insufficient_window_not_recorded_witness:
  "js_lt (js_length (currentWindow new_PostureDetector)) (MIN_VALID_FRAMES (config new_PostureDetector))
   \<and> processWindow env0 new_PostureDetector
       = (new_PostureDetector, [StatusUpdate (insufficientStatus new_PostureDetector)])
   \<and> windowLabel (insufficientStatus new_PostureDetector) = INSUFFICIENT
   \<and> avgAngle (insufficientStatus new_PostureDetector) = None"
proof -
  have h: "js_lt (js_length (currentWindow new_PostureDetector)) (MIN_VALID_FRAMES (config new_PostureDetector))"
    by (simp add: new_PostureDetector_def DEFAULT_CONFIG_def js_length_def)
  from insufficient_window_not_recorded [OF h, of env0] h show ?thesis by simp
qed

text \<open>
  C3 as stated fails: a new detector closes an empty window, and its history stays
  empty, so no entry, bad or not, has been recorded for that window.
\<close>

theorem insufficient_window_recorded_counterexample:
  "\<not> (\<forall>e d. js_lt (js_length (currentWindow d)) (MIN_VALID_FRAMES (config d))
         \<longrightarrow> windowHistory (fst (processWindow e d)) \<noteq> []
             \<and> label (last (windowHistory (fst (processWindow e d)))) \<noteq> BAD)"
proof
  assume a: "\<forall>e d. js_lt (js_length (currentWindow d)) (MIN_VALID_FRAMES (config d))
         \<longrightarrow> windowHistory (fst (processWindow e d)) \<noteq> []
             \<and> label (last (windowHistory (fst (processWindow e d)))) \<noteq> BAD"
  have h: "js_lt (js_length (currentWindow new_PostureDetector)) (MIN_VALID_FRAMES (config new_PostureDetector))"
    by (simp add: new_PostureDetector_def DEFAULT_CONFIG_def js_length_def)
  have "windowHistory (fst (processWindow env0 new_PostureDetector)) = []"
    using h by (simp add: processWindow_def new_PostureDetector_def)
  with a h show False by blast
qed

section \<open>Rejection of frames with a missing keypoint\<close>

text \<open>
  C7. If the parsed keypoints lack one of the five required points, the call returns
  the rejection object (\<^verbatim>\<open>features: null\<close>, \<^verbatim>\<open>confidence: 0\<close>, the error in
  \<^verbatim>\<open>metadata\<close>) for the first required name that is absent, and the smoothing buffer
  it returns is the one it was given. The function is total: no throw reaches the caller.
\<close>

theorem missing_keypoint_rejected:
  assumes "name \<in> set required" and "parseKeypoints k name = None"
  shows "\<exists>missing \<in> set required. parseKeypoints k missing = None
           \<and> computeFeaturesFromKeypoints (Some k) baseline angleHistory
               = (\<lparr> features = None, r_confidence = Fin 0,
                     r_metadata = ErrorMeta (MissingRequiredKeypoint missing) \<rparr>, angleHistory)"
proof -
  let ?p = "parseKeypoints k"
  let ?rejects = "\<lambda>missing. ?p missing = None
           \<and> computeFeaturesFromKeypoints (Some k) baseline angleHistory
               = (\<lparr> features = None, r_confidence = Fin 0,
                     r_metadata = ErrorMeta (MissingRequiredKeypoint missing) \<rparr>, angleHistory)"
  consider
      (ls) "?p ''left_shoulder'' = None"
    | (rs) "?p ''left_shoulder'' \<noteq> None" "?p ''right_shoulder'' = None"
    | (lh) "?p ''left_shoulder'' \<noteq> None" "?p ''right_shoulder'' \<noteq> None" "?p ''left_hip'' = None"
    | (rh) "?p ''left_shoulder'' \<noteq> None" "?p ''right_shoulder'' \<noteq> None" "?p ''left_hip'' \<noteq> None"
           "?p ''right_hip'' = None"
    | (n) "?p ''left_shoulder'' \<noteq> None" "?p ''right_shoulder'' \<noteq> None" "?p ''left_hip'' \<noteq> None"
          "?p ''right_hip'' \<noteq> None" "?p ''nose'' = None"
    using assms by (auto simp: required_def)
  then show ?thesis
  proof cases
    case ls
    then have "?rejects ''left_shoulder''"
      by (simp add: computeFeaturesFromKeypoints_def try_computeFeatures_def)
    then show ?thesis by (auto simp: required_def)
  next
    case rs
    then have "?rejects ''right_shoulder''"
      by (auto simp: computeFeaturesFromKeypoints_def try_computeFeatures_def)
    then show ?thesis by (auto simp: required_def)
  next
    case lh
    then have "?rejects ''left_hip''"
      by (auto simp: computeFeaturesFromKeypoints_def try_computeFeatures_def)
    then show ?thesis by (auto simp: required_def)
  next
    case rh
    then have "?rejects ''right_hip''"
      by (auto simp: computeFeaturesFromKeypoints_def try_computeFeatures_def)
    then show ?thesis by (auto simp: required_def)
  next
    case n
    then have "?rejects ''nose''"
      by (auto simp: computeFeaturesFromKeypoints_def try_computeFeatures_def)
    then show ?thesis by (auto simp: required_def)
  qed
qed

theorem missing_keypoint_rejected_witness:
  "''nose'' \<in> set required \<and> parseKeypoints mockKeypoints_no_nose ''nose'' = None
   \<and> (\<exists>missing \<in> set required. parseKeypoints mockKeypoints_no_nose missing = None
           \<and> computeFeaturesFromKeypoints (Some mockKeypoints_no_nose) (Some (Fin 5)) [Fin 1, Fin 2]
               = (\<lparr> features = None, r_confidence = Fin 0,
                     r_metadata = ErrorMeta (MissingRequiredKeypoint missing) \<rparr>, [Fin 1, Fin 2]))"
proof -
  have 1: "''nose'' \<in> set required" by (simp add: required_def)
  have 2: "parseKeypoints mockKeypoints_no_nose ''nose'' = None"
    by (simp add: parseKeypoints_def mockKeypoints_no_nose_def mock_point_def)
  from missing_keypoint_rejected [OF 1 2, of "Some (Fin 5)" "[Fin 1, Fin 2]"] 1 2
  show ?thesis by blast
qed

section \<open>The feature vector of an accepted frame\<close>

text \<open>
  C6. Whenever \<^verbatim>\<open>computeFeaturesFromKeypoints\<close> returns a features array, the array is
  the five values spine angle, relative spine angle, head-forward ratio, shoulder-width
  ratio and average confidence in that order, each finite and not \<^verbatim>\<open>NaN\<close>, the spine
  angle lies in [0, 70], and the average confidence is at least \<^verbatim>\<open>MIN_CONFIDENCE\<close>.
\<close>

theorem features_well_formed:
  assumes "computeFeaturesFromKeypoints keypoints baseline angleHistory = (r, history)"
      and "features r = Some fs"
  shows "\<exists>m. r_metadata r = FrameMeta m
         \<and> fs = [spineAngle m, spineAngleRel m, headForwardRatio m, shoulderWidthRatio m, r_confidence r]
         \<and> length fs = 5
         \<and> list_all (\<lambda>f. js_isFinite f \<and> \<not> js_isNaN f) fs
         \<and> js_le (Fin 0) (spineAngle m) \<and> js_le (spineAngle m) (Fin 70)
         \<and> js_ge (r_confidence r) (MIN_CONFIDENCE DEFAULT_CONFIG)"
proof -
  from assms have t: "try_computeFeatures keypoints baseline angleHistory = (Inr r, history)"
    by (auto simp: computeFeaturesFromKeypoints_def split: prod.splits sum.splits)
  then obtain points where "extract_features points baseline angleHistory = (Inr r, history)"
    by (auto simp: try_computeFeatures_def Let_def split: option.splits)
  from extract_features_accepts [OF this] assms(2) show ?thesis by auto
qed

theorem features_well_formed_witness:
  "computeFeaturesFromKeypoints (Some mockKeypoints) (Some (Fin 5)) [] = (mock_result, [Fin 0])
   \<and> features mock_result = Some [Fin 0, Fin 5, Fin 0, Fin 0.8, Fin 0.9]
   \<and> (\<exists>m. r_metadata mock_result = FrameMeta m
         \<and> [Fin 0, Fin 5, Fin 0, Fin 0.8, Fin 0.9]
             = [spineAngle m, spineAngleRel m, headForwardRatio m, shoulderWidthRatio m, r_confidence mock_result]
         \<and> js_le (Fin 0) (spineAngle m) \<and> js_le (spineAngle m) (Fin 70))"
proof -
  have f: "features mock_result = Some [Fin 0, Fin 5, Fin 0, Fin 0.8, Fin 0.9]"
    by (simp add: mock_result_def)
  from features_well_formed [OF compute_mock_empty f] compute_mock_empty f
  show ?thesis by blast
qed

section \<open>The conditions under which an alert fires\<close>

text \<open>
  C1. If closing a window calls \<^verbatim>\<open>onAlert\<close>, then, in the detector as the call leaves
  it: the history holds at least two windows; its last two windows are both bad, or the
  number of its bad windows is at least \<^verbatim>\<open>WINDOWS_VOTES_REQUIRED\<close>;
  \<^verbatim>\<open>badPersistenceMs\<close> is the sum of \<^verbatim>\<open>SAMPLING_WINDOW_MS\<close> over the bad windows of the
  history and is at least \<^verbatim>\<open>PERSIST_MS\<close>, hence not below it; the clock reading of the
  check is at least \<^verbatim>\<open>ALERT_COOLDOWN_MS\<close> past the previous alert; the detector is not
  muted; and the clock is past \<^verbatim>\<open>snoozeUntil\<close>. The three configured values are read as
  the code reads them, with \<^verbatim>\<open>||\<close>: a value of 0 or \<^verbatim>\<open>NaN\<close> stands for the default 2,
  8000 or 30000. This holds for every configuration and every detector state.
\<close>

theorem alert_only_when_conditions_hold:
  assumes "processWindow e d = (d', evs)" and "AlertFired a \<in> set evs"
  shows "2 \<le> length (windowHistory d')
     \<and> ((label (windowHistory d' ! (length (windowHistory d') - 1)) = BAD
          \<and> label (windowHistory d' ! (length (windowHistory d') - 2)) = BAD)
        \<or> js_ge (Fin (real (length (filter (\<lambda>w. label w = BAD) (windowHistory d')))))
                 (js_or (WINDOWS_VOTES_REQUIRED (config d')) (Fin 2)))
     \<and> badPersistenceMs d' = badPersistence (config d') (windowHistory d')
     \<and> js_ge (badPersistenceMs d') (js_or (PERSIST_MS (config d')) (Fin 8000))
     \<and> \<not> js_lt (badPersistenceMs d') (js_or (PERSIST_MS (config d')) (Fin 8000))
     \<and> js_ge (js_sub (t_check e) (lastAlertTime d)) (js_or (ALERT_COOLDOWN_MS (config d')) (Fin 30000))
     \<and> \<not> isMuted d' \<and> js_gt (t_check e) (snoozeUntil d')"
proof -
  from assms have suff: "\<not> js_lt (js_length (currentWindow d)) (MIN_VALID_FRAMES (config d))"
    by (auto simp: processWindow_def)
  from assms suff obtain st where st: "computeWindowStatistics (currentWindow d) = Some st"
    by (cases "computeWindowStatistics (currentWindow d)") (auto simp: processWindow_def)
  from assms suff st obtain wl mp d1 where lw: "labelWindow d st = Some (wl, mp, d1)"
    by (cases "labelWindow d st") (auto simp: processWindow_def)
  define d2 where "d2 = (if wl = GOOD \<and> absolute st \<noteq> None then updateAdaptiveBaseline st d1 else d1)"
  define history where "history =
     (let pushed = windowHistory d2
            @ [\<lparr> label = wl, timestamp = t_record e,
                 status = \<lparr> windowLabel = wl,
                           st_windowIndex = windowIndex d2,
                           validFrames = length (currentWindow d2),
                           avgAngle = Some (case absolute st of Some ab \<Rightarrow> mean ab | None \<Rightarrow> mean st),
                           avgAngleRel = Some (mean st),
                           medianAngleRel = Some (median st),
                           stdAngleRel = Some (std st),
                           modelProbabilities = mp \<rparr>,
                 stats = st \<rparr>]
      in if js_gt (js_length pushed) (WINDOWS_HISTORY (config d2)) then tl pushed else pushed)"
  define d3 where "d3 = d2\<lparr> windowHistory := history,
                            badPersistenceMs := badPersistence (config d2) history \<rparr>"
  from assms suff st lw obtain alerts where
    ca: "checkForAlert e d3 = (d', alerts)" and al: "AlertFired a \<in> set alerts"
    by (auto simp: processWindow_def Let_def d2_def d3_def history_def split: prod.splits)
  note f = checkForAlert_fired [OF ca al]
  have fr: "config d2 = config d" "lastAlertTime d2 = lastAlertTime d"
    "isMuted d2 = isMuted d" "snoozeUntil d2 = snoozeUntil d"
    by (simp_all add: d2_def updateAdaptiveBaseline_fields labelWindow_fields [OF lw])
  have d3f: "config d3 = config d" "lastAlertTime d3 = lastAlertTime d"
    "isMuted d3 = isMuted d" "snoozeUntil d3 = snoozeUntil d"
    "windowHistory d3 = history" "badPersistenceMs d3 = badPersistence (config d) history"
    by (simp_all add: d3_def fr)
  show ?thesis
    using f(2-) d3f js_ge_not_lt [OF f(4)] by (simp add: f(1))
qed

theorem alert_only_when_conditions_hold_witness:
  "AlertFired alert0 \<in> set (snd (processWindow env0 one_bad_window))
   \<and> 2 \<le> length (windowHistory (fst (processWindow env0 one_bad_window)))
   \<and> js_ge (badPersistenceMs (fst (processWindow env0 one_bad_window)))
            (js_or (PERSIST_MS (config (fst (processWindow env0 one_bad_window)))) (Fin 8000))
   \<and> js_ge (js_sub (t_check env0) (lastAlertTime one_bad_window))
            (js_or (ALERT_COOLDOWN_MS (config (fst (processWindow env0 one_bad_window)))) (Fin 30000))
   \<and> \<not> isMuted (fst (processWindow env0 one_bad_window))
   \<and> js_gt (t_check env0) (snoozeUntil (fst (processWindow env0 one_bad_window)))"
  using alert_only_when_conditions_hold [OF prod.collapse [symmetric] alert_fires_example]
    alert_fires_example
  by blast

section \<open>The ensemble of model and thresholds\<close>

text \<open>
  C2. A window of median relative angle 8 under a model that reports a slouch
  probability of 0.9: the threshold label is \<^verbatim>\<open>mild\<close>, so model and thresholds do not
  both say bad, and 0.7 times 0.9 exceeds 0.5; the claim has the window labelled
  \<^verbatim>\<open>bad\<close>. The code labels it \<^verbatim>\<open>mild\<close>: the probabilities it blends are both 0, read
  from properties that the prediction does not have.
\<close>

theorem ensemble_drops_model_probability:
  "averageFeatures (currentWindow with_model) = Some [Fin 13, Fin 8, Fin 0, Fin 0.8, Fin 0.9]
   \<and> predict slouch_model
        (normalizeFeatures [Fin 13, Fin 8, Fin 0, Fin 0.8, Fin 0.9] unit_normalization)
      = Some \<lparr> p_label = SLOUCH, probs = [(''good'', Fin 0.1), (''bad'', Fin 0.9)], p_confidence = Fin 0.9 \<rparr>
   \<and> fst (thresholdClassification with_model (Fin 8)) = MILD
   \<and> js_gt (js_add (js_mul (Fin 0.9) (MODEL_WEIGHT (config with_model)))
                    (js_mul (Fin 0) (THRESHOLD_WEIGHT (config with_model)))) (Fin 0.5)
   \<and> labelWindow with_model (mock_window_stats 13 8)
      = Some (MILD, Some \<lparr> prob_good = Fin 0, prob_slouch = Fin 0 \<rparr>,
              with_model\<lparr>lastClassification := Some MILD\<rparr>)
   \<and> snd (processWindow env0 with_model)
      = [StatusUpdate \<lparr> windowLabel = MILD, st_windowIndex = 0, validFrames = 3,
                        avgAngle = Some (Fin 13), avgAngleRel = Some (Fin 8),
                        medianAngleRel = Some (Fin 8), stdAngleRel = Some (Fin 0),
                        modelProbabilities = Some \<lparr> prob_good = Fin 0, prob_slouch = Fin 0 \<rparr> \<rparr>]"
proof -
  have sc: "js_gt (js_add (js_mul (Fin 0.9) (MODEL_WEIGHT (config with_model)))
                    (js_mul (Fin 0) (THRESHOLD_WEIGHT (config with_model)))) (Fin 0.5)"
    by (simp add: with_model_def ready_detector_def new_PostureDetector_def DEFAULT_CONFIG_def js_gt_def)
  show ?thesis
    unfolding normalize_unit
    using average_with_model predict_slouch classify_with_model sc label_with_model window_with_model
    by simp
qed

section \<open>Personalized thresholds\<close>

text \<open>
  C8. When \<^verbatim>\<open>updateAdaptiveBaseline\<close> runs on the statistics of a window that has
  absolute angles (as \<^verbatim>\<open>processWindow\<close> calls it after a good window), the baseline and
  the personalized thresholds are set, and each threshold is at least the configured
  static threshold minus a margin that the configuration fixes: the good threshold minus
  its excess over 0.5, the mild threshold minus its excess over the good threshold plus
  0.5, the bad threshold minus nothing. Under the default thresholds 5, 10 and 10 the
  margins are 4.5, 4.5 and 0.
\<close>

theorem personalized_thresholds_floor:
  assumes "computeWindowStatistics samples = Some st" and "absolute st \<noteq> None"
      and "GOOD_THRESHOLD (config d) = Fin g"
      and "MILD_THRESHOLD (config d) = Fin m"
      and "BAD_THRESHOLD (config d) = Fin b"
  shows "\<exists>t. personalizedThresholds (updateAdaptiveBaseline st d) = Some t
           \<and> baselineAngle (updateAdaptiveBaseline st d) \<noteq> None
           \<and> js_ge (good t) (js_sub (GOOD_THRESHOLD (config d)) (Fin (max 0 (g - 0.5))))
           \<and> js_ge (mild t) (js_sub (MILD_THRESHOLD (config d)) (Fin (max 0 (m - (g + 0.5)))))
           \<and> js_ge (bad t) (js_sub (BAD_THRESHOLD (config d)) (Fin 0))"
proof -
  from assms(2) obtain ab where ab: "absolute st = Some ab" by auto
  from computeWindowStatistics_absolute_median [OF assms(1) ab]
  have fin: "js_isFinite (median ab)" .
  from computeWindowStatistics_median [OF assms(1)]
  obtain v where v: "median st = Fin v" by (cases "median st") auto
  show ?thesis
    using ab fin assms(3-5) v
    by (auto simp: updateAdaptiveBaseline_def Let_def js_min_def js_max_def js_ge_def js_sub_def
        split: option.splits)
qed

theorem personalized_thresholds_floor_witness:
  "computeWindowStatistics (replicate 3 (mock_sample 7 2)) = Some (mock_window_stats 7 2)
   \<and> absolute (mock_window_stats 7 2) \<noteq> None
   \<and> GOOD_THRESHOLD (config new_PostureDetector) = Fin 5
   \<and> MILD_THRESHOLD (config new_PostureDetector) = Fin 10
   \<and> BAD_THRESHOLD (config new_PostureDetector) = Fin 10
   \<and> (\<exists>t. personalizedThresholds (updateAdaptiveBaseline (mock_window_stats 7 2) new_PostureDetector) = Some t
           \<and> js_ge (good t) (js_sub (Fin 5) (Fin 4.5))
           \<and> js_ge (mild t) (js_sub (Fin 10) (Fin 4.5))
           \<and> js_ge (bad t) (js_sub (Fin 10) (Fin 0)))"
proof -
  have 1: "computeWindowStatistics (replicate 3 (mock_sample 7 2)) = Some (mock_window_stats 7 2)"
    by (rule stats_mock) simp_all
  have 2: "absolute (mock_window_stats 7 2) \<noteq> None"
    by (simp add: mock_window_stats_def wstats.defs)
  have 3: "GOOD_THRESHOLD (config new_PostureDetector) = Fin 5"
    and 4: "MILD_THRESHOLD (config new_PostureDetector) = Fin 10"
    and 5: "BAD_THRESHOLD (config new_PostureDetector) = Fin 10"
    by (simp_all add: new_PostureDetector_def DEFAULT_CONFIG_def)
  from personalized_thresholds_floor [OF 1 2 3 4 5]
  have "\<exists>t. personalizedThresholds (updateAdaptiveBaseline (mock_window_stats 7 2) new_PostureDetector) = Some t
           \<and> js_ge (good t) (js_sub (Fin 5) (Fin 4.5))
           \<and> js_ge (mild t) (js_sub (Fin 10) (Fin 4.5))
           \<and> js_ge (bad t) (js_sub (Fin 10) (Fin 0))"
    by (auto simp: 3 4 5)
  with 1 2 3 4 5 show ?thesis by blast
qed

section \<open>A forced inference writes the hysteresis state\<close>

text \<open>
  C10. On a detector in threshold mode that has classified nothing yet, an angle of 11
  degrees is classified \<^verbatim>\<open>bad\<close>. One \<^verbatim>\<open>forceInferOnce\<close> on the test keypoints (relative
  angle 5, classified \<^verbatim>\<open>good\<close>) sets \<^verbatim>\<open>lastClassification\<close> to \<^verbatim>\<open>good\<close> through
  \<^verbatim>\<open>thresholdClassification\<close>; in the detector it leaves, the same angle of 11 is
  classified \<^verbatim>\<open>good\<close>.
\<close>

theorem forceInferOnce_changes_later_label:
  "lastClassification ready_detector = None
   \<and> lastClassification (fst (snd (forceInferOnce (Some mockKeypoints) ready_detector []))) = Some GOOD
   \<and> fst (thresholdClassification ready_detector (Fin 11)) = BAD
   \<and> fst (thresholdClassification
            (fst (snd (forceInferOnce (Some mockKeypoints) ready_detector []))) (Fin 11)) = GOOD"
  by (simp add: forceInferOnce_mock)
     (simp add: ready_detector_def new_PostureDetector_def
      thresholdClassification_def goodThreshold_def mildThreshold_def badThreshold_def getThresholds_def
      DEFAULT_CONFIG_def js_or_def hysteresis_def Let_def)

end
